theory Spec2Isabelle
  imports Main
begin

section \<open>Python strings and integers\<close>

text \<open>
  A Python \<open>str\<close> is modelled as a HOL \<open>string\<close>, one \<open>char\<close> per code point
  below 256. On that range \<open>str.isspace\<close> holds for the code points 9-13, 28-32, 133 and
  160, and the regular expression class \<open>\d\<close> (as well as \<open>int()\<close>) accepts exactly
  the ASCII digits.
\<close>

definition py_isspace :: "char \<Rightarrow> bool" where
  "py_isspace c = (let n = (of_char c :: nat) in
     (9 \<le> n \<and> n \<le> 13) \<or> (28 \<le> n \<and> n \<le> 32) \<or> n = 133 \<or> n = 160)"


text \<open>\<open>s.strip()\<close>: leading and trailing whitespace removed.\<close>

definition strip :: "string \<Rightarrow> string" where
  "strip s = rev (dropWhile py_isspace (rev (dropWhile py_isspace s)))"



definition digit_char :: "nat \<Rightarrow> char" where
  "digit_char d = ''0123456789'' ! d"

text \<open>The decimal numeral of a natural number, as \<open>str(n)\<close> prints it.\<close>

fun dec_nat :: "nat \<Rightarrow> string" where
  "dec_nat n = (if n < 10 then [digit_char n] else dec_nat (n div 10) @ [digit_char (n mod 10)])"

declare dec_nat.simps [simp del]

definition show_int :: "int \<Rightarrow> string" where
  "show_int i = (if i < 0 then CHR ''-'' # dec_nat (nat (- i)) else dec_nat (nat i))"





section \<open>ToolUtils.format_agent_id\<close>




section \<open>JSON values\<close>

text \<open>
  The values \<open>json.loads\<close> produces. A float is kept as mantissa and binary exponent, or
  as one of the special values the parser also accepts. An object is the list of its
  items in insertion order; a Python \<open>dict\<close> holds each key once.
\<close>

datatype pyfloat = Finite int int | Infinity bool | NaN

datatype json =
    JNull
  | JBool bool
  | JInt int
  | JFloat pyfloat
  | JStr string
  | JArr "json list"
  | JObj "(string \<times> json) list"

text \<open>Truth value of a Python object (\<open>not x\<close>, \<open>if x:\<close>).\<close>

fun truthy :: "json \<Rightarrow> bool" where
  "truthy JNull = False"
| "truthy (JBool b) = b"
| "truthy (JInt i) = (i \<noteq> 0)"
| "truthy (JFloat f) = (case f of Finite m e \<Rightarrow> m \<noteq> 0 | _ \<Rightarrow> True)"
| "truthy (JStr s) = (s \<noteq> [])"
| "truthy (JArr xs) = (xs \<noteq> [])"
| "truthy (JObj kv) = (kv \<noteq> [])"

text \<open>\<open>d.get(k)\<close> and \<open>d.get(k, default)\<close> on a dict; a missing key gives \<open>None\<close>.\<close>

definition dict_get :: "(string \<times> json) list \<Rightarrow> string \<Rightarrow> json" where
  "dict_get d k = (case map_of d k of None \<Rightarrow> JNull | Some v \<Rightarrow> v)"

definition dict_get_default :: "(string \<times> json) list \<Rightarrow> string \<Rightarrow> json \<Rightarrow> json" where
  "dict_get_default d k dflt = (case map_of d k of None \<Rightarrow> dflt | Some v \<Rightarrow> v)"

text \<open>\<open>d[k] = v\<close>: an existing key keeps its position, a new key goes last.\<close>

fun dict_set :: "(string \<times> 'v) list \<Rightarrow> string \<Rightarrow> 'v \<Rightarrow> (string \<times> 'v) list" where
  "dict_set [] k v = [(k, v)]"
| "dict_set ((k', v') # d) k v = (if k' = k then (k, v) # d else (k', v') # dict_set d k v)"

definition type_name :: "json \<Rightarrow> string" where
  "type_name v = (case v of JNull \<Rightarrow> ''NoneType'' | JBool _ \<Rightarrow> ''bool'' | JInt _ \<Rightarrow> ''int''
     | JFloat _ \<Rightarrow> ''float'' | JStr _ \<Rightarrow> ''str'' | JArr _ \<Rightarrow> ''list'' | JObj _ \<Rightarrow> ''dict'')"

text \<open>
  The library functions the code calls and this development does not define: the JSON
  parser (\<open>None\<close> stands for \<open>json.JSONDecodeError\<close>, the only way the parser is taken
  to fail) and \<open>str()\<close> of floats, lists and dicts. They are parameters of every function
  that uses them.
\<close>

record py_env =
  json_loads :: "string \<Rightarrow> json option"
  repr_other :: "json \<Rightarrow> string"

definition py_str :: "py_env \<Rightarrow> json \<Rightarrow> string" where
  "py_str env v = (case v of
       JStr s \<Rightarrow> s
     | JNull \<Rightarrow> ''None''
     | JBool b \<Rightarrow> (if b then ''True'' else ''False'')
     | JInt i \<Rightarrow> show_int i
     | _ \<Rightarrow> repr_other env v)"

section \<open>Exceptions\<close>

text \<open>
  The exceptions (subclasses of \<open>Exception\<close>) that the protocol engine raises within
  \<open>handle_message\<close>, with what \<open>str(e)\<close> shows of them: \<open>JsonRpcError\<close> with its
  code and message (its \<open>__init__\<close> passes \<open>JSON-RPC Error {code}: {message}\<close> to
  \<open>Exception\<close>), and the two the interpreter raises on a value of the wrong type.
\<close>

datatype py_exn =
    JsonRpcError int string
  | AttributeError string
  | TypeError string

definition exn_str :: "py_exn \<Rightarrow> string" where
  "exn_str e = (case e of
       JsonRpcError code msg \<Rightarrow> ''JSON-RPC Error '' @ show_int code @ '': '' @ msg
     | AttributeError msg \<Rightarrow> msg
     | TypeError msg \<Rightarrow> msg)"

text \<open>The message of the \<open>AttributeError\<close> for \<open>v.attr\<close> on a value without it.\<close>

definition no_attribute :: "json \<Rightarrow> string \<Rightarrow> string" where
  "no_attribute v attr =
     [CHR 0x27] @ type_name v @ [CHR 0x27] @ '' object has no attribute '' @
     [CHR 0x27] @ attr @ [CHR 0x27]"

text \<open>
  The exceptions of the client: the domain error \<open>WazuhApiError\<close> with its message and
  \<open>status_code\<close> (\<open>None\<close> when not given), and the two that leave the client as they
  are, \<open>json.JSONDecodeError\<close> and \<open>AttributeError\<close> (with its message).
\<close>

datatype client_exn =
    WazuhApiError string "int option"
  | JSONDecodeError
  | ResponseAttributeError string

section \<open>The protocol engine (mcp_protocol.py)\<close>

definition V_2024_11_05 :: string where
  "V_2024_11_05 = ''2024-11-05''"

definition PARSE_ERROR :: int where
  "PARSE_ERROR = - 32700"

definition INVALID_REQUEST :: int where
  "INVALID_REQUEST = - 32600"

definition METHOD_NOT_FOUND :: int where
  "METHOD_NOT_FOUND = - 32601"

definition INVALID_PARAMS :: int where
  "INVALID_PARAMS = - 32602"

definition INTERNAL_ERROR :: int where
  "INTERNAL_ERROR = - 32603"

text \<open>A content item (fields \<open>type\<close> and \<open>text\<close>) and \<open>dataclasses.asdict\<close> of it.\<close>

record content =
  ctype :: string
  ctext :: string

definition asdict :: "content \<Rightarrow> json" where
  "asdict c = JObj [(''type'', JStr (ctype c)), (''text'', JStr (ctext c))]"

text \<open>
  What a tool method does when awaited: it returns a \<open>CallToolResult\<close> (content,
  \<open>is_error\<close>) or some other object, of which only \<open>str(result)\<close> is used, or it raises
  an \<open>Exception\<close> \<open>e\<close>, of which only \<open>str(e)\<close> is used.
\<close>

datatype tool_value = CallToolResult "content list" bool | OtherValue string

datatype tool_outcome = Returns tool_value | Raises string

type_synonym tool_method = "(string \<times> json) list \<Rightarrow> tool_outcome"

record tool_info =
  tool_name :: string
  tool_description :: string
  tool_input_schema :: json
  tool_method :: "tool_method option"

record implementation =
  impl_name :: string
  impl_version :: string

record mcp_server_info =
  protocol_version :: string
  server_info :: implementation
  instructions :: "string option"

text \<open>
  The handler object: \<open>tools_attr\<close> is its \<open>_tools\<close> attribute (\<open>None\<close> when
  \<open>hasattr(handler, '_tools')\<close> is false), \<open>get_info\<close> what its method of that name
  returns (it is taken to return).
\<close>

record server_handler =
  tools_attr :: "(string \<times> tool_info) list option"
  get_info :: mcp_server_info

record mcp_server =
  handler :: server_handler
  tools :: "(string \<times> tool_info) list"
  initialized :: bool

definition register_tools :: "mcp_server \<Rightarrow> mcp_server" where
  "register_tools srv = (case tools_attr (handler srv) of
       None \<Rightarrow> srv
     | Some ts \<Rightarrow> srv\<lparr>tools := foldl (\<lambda>d (n, i). dict_set d n i) (tools srv) ts\<rparr>)"

definition new_server :: "server_handler \<Rightarrow> mcp_server" where
  "new_server h = register_tools \<lparr>handler = h, tools = [], initialized = False\<rparr>"

text \<open>
  The two envelope constructors. The model keeps the dict that \<open>json.dumps\<close> is applied
  to; the serialised text is never empty.
\<close>

definition create_success_response :: "json \<Rightarrow> json \<Rightarrow> json" where
  "create_success_response request_id result =
     JObj [(''jsonrpc'', JStr ''2.0''), (''id'', request_id), (''result'', result)]"

definition create_error_response :: "json \<Rightarrow> int \<Rightarrow> string \<Rightarrow> json" where
  "create_error_response request_id code message =
     JObj [(''jsonrpc'', JStr ''2.0''), (''id'', request_id),
           (''error'', JObj [(''code'', JInt code), (''message'', JStr message)])]"

definition handle_initialize :: "server_handler \<Rightarrow> json \<Rightarrow> json" where
  "handle_initialize h params = (let info = get_info h in
     JObj [(''protocolVersion'', JStr V_2024_11_05),
           (''capabilities'', JObj [(''tools'', JObj []), (''prompts'', JObj []),
                                    (''resources'', JObj [])]),
           (''serverInfo'', JObj [(''name'', JStr (impl_name (server_info info))),
                                  (''version'', JStr (impl_version (server_info info)))]),
           (''instructions'', (case instructions info of None \<Rightarrow> JNull | Some s \<Rightarrow> JStr s))])"

definition handle_tools_list :: "server_handler \<Rightarrow> json \<Rightarrow> json" where
  "handle_tools_list h params = JObj [(''tools'', JArr
     (case tools_attr h of
        None \<Rightarrow> []
      | Some ts \<Rightarrow> map (\<lambda>(n, info). JObj [(''name'', JStr n),
                                          (''description'', JStr (tool_description info)),
                                          (''inputSchema'', tool_input_schema info)]) ts))]"

text \<open>
  \<open>method(self.handler, **arguments)\<close>: the expansion \<open>**arguments\<close> raises
  \<open>TypeError\<close> unless \<open>arguments\<close> is a mapping (the interpreter's message starts with
  the name of the called function, which is left out here). The binding of the keywords
  to the parameters is part of the tool method.
\<close>

definition call_tool :: "tool_method \<Rightarrow> json \<Rightarrow> tool_outcome" where
  "call_tool m arguments = (case arguments of
       JObj kv \<Rightarrow> m kv
     | v \<Rightarrow> Raises (''argument after ** must be a mapping, not '' @ type_name v))"

text \<open>
  \<open>hasattr(self.handler, '_tools') and tool_name in self.handler._tools\<close>, followed by
  the subscript: a list or a dict cannot be hashed (\<open>TypeError\<close>), and of the JSON values
  only a string equals a key of the registry.
\<close>

definition find_tool :: "server_handler \<Rightarrow> json \<Rightarrow> py_exn + tool_info option" where
  "find_tool h name = (case tools_attr h of
       None \<Rightarrow> Inr None
     | Some ts \<Rightarrow>
        (case name of
           JStr n \<Rightarrow> Inr (map_of ts n)
         | JArr _ \<Rightarrow> Inl (TypeError (''unhashable type: '' @ [CHR 0x27] @ ''list'' @ [CHR 0x27]))
         | JObj _ \<Rightarrow> Inl (TypeError (''unhashable type: '' @ [CHR 0x27] @ ''dict'' @ [CHR 0x27]))
         | _ \<Rightarrow> Inr None))"

definition text_item :: "string \<Rightarrow> json" where
  "text_item s = JObj [(''type'', JStr ''text''), (''text'', JStr s)]"

definition tool_not_found :: "py_env \<Rightarrow> json \<Rightarrow> py_exn" where
  "tool_not_found env name = JsonRpcError METHOD_NOT_FOUND (''Tool not found: '' @ py_str env name)"

definition handle_tools_call :: "py_env \<Rightarrow> server_handler \<Rightarrow> json \<Rightarrow> py_exn + json" where
  "handle_tools_call env h params = (case params of
       JObj p \<Rightarrow>
         (let name = dict_get p ''name'' in
          if \<not> truthy name then Inl (JsonRpcError INVALID_PARAMS ''Missing tool name'')
          else
            (let arguments = dict_get_default p ''arguments'' (JObj []) in
             case find_tool h name of
               Inl e \<Rightarrow> Inl e
             | Inr None \<Rightarrow> Inl (tool_not_found env name)
             | Inr (Some info) \<Rightarrow>
                (case tool_method info of
                   None \<Rightarrow> Inl (tool_not_found env name)
                 | Some m \<Rightarrow>
                    (case call_tool m arguments of
                       Returns (CallToolResult cs is_error) \<Rightarrow>
                         Inr (JObj [(''content'', JArr (map asdict cs)),
                                    (''isError'', JBool is_error)])
                     | Returns (OtherValue s) \<Rightarrow>
                         Inr (JObj [(''content'', JArr [text_item s]),
                                    (''isError'', JBool False)])
                     | Raises e \<Rightarrow>
                         Inr (JObj [(''content'', JArr [text_item (''Error calling tool: '' @ e)]),
                                    (''isError'', JBool True)])))))
     | v \<Rightarrow> Inl (AttributeError (no_attribute v ''get'')))"

text \<open>
  \<open>McpServer.handle_message\<close>. The result is the returned envelope (\<open>None\<close> for no
  response) and the server, whose \<open>initialized\<close> flag the call may set. An exception
  of \<open>_handle_tools_call\<close> reaches the handler \<open>except Exception\<close>, the only one
  besides that for \<open>json.JSONDecodeError\<close>.
\<close>

definition handle_message :: "py_env \<Rightarrow> mcp_server \<Rightarrow> string \<Rightarrow> json option \<times> mcp_server" where
  "handle_message env srv message = (case json_loads env message of
       None \<Rightarrow> (Some (create_error_response JNull PARSE_ERROR ''Parse error''), srv)
     | Some (JObj request) \<Rightarrow>
         if map_of request ''jsonrpc'' = None then
           (Some (create_error_response JNull INVALID_REQUEST ''Invalid JSON-RPC request''), srv)
         else if dict_get request ''jsonrpc'' \<noteq> JStr ''2.0'' then
           (Some (create_error_response (dict_get request ''id'') INVALID_REQUEST
                    ''Unsupported JSON-RPC version''), srv)
         else
           (let meth = dict_get request ''method'' in
            if \<not> truthy meth then
              (Some (create_error_response (dict_get request ''id'') INVALID_REQUEST
                       ''Missing method field''), srv)
            else
              (let params = dict_get_default request ''params'' (JObj []);
                   request_id = dict_get request ''id''
               in
               if meth = JStr ''initialize'' then
                 (Some (create_success_response request_id
                          (handle_initialize (handler srv) params)), srv)
               else if meth = JStr ''notifications/initialized'' then
                 (None, srv\<lparr>initialized := True\<rparr>)
               else if meth = JStr ''tools/list'' then
                 (Some (create_success_response request_id
                          (handle_tools_list (handler srv) params)), srv)
               else if meth = JStr ''tools/call'' then
                 (case handle_tools_call env (handler srv) params of
                    Inr response \<Rightarrow> (Some (create_success_response request_id response), srv)
                  | Inl e \<Rightarrow>
                      (Some (create_error_response (dict_get request ''id'') INTERNAL_ERROR
                               (exn_str e)), srv))
               else
                 (Some (create_error_response request_id METHOD_NOT_FOUND
                          (''Method not found: '' @ py_str env meth)), srv)))
     | Some _ \<Rightarrow>
         (Some (create_error_response JNull INVALID_REQUEST ''Invalid JSON-RPC request''), srv))"

section \<open>The stdio transport\<close>

text \<open>
  Standard input is the sequence of the values \<open>sys.stdin.readline\<close> returns, call
  by call; the empty string is end of file. \<open>print(response, flush=True)\<close> writes the
  envelope as one line and then flushes the stream. Reading and writing are taken to
  succeed, so the two \<open>except\<close> clauses of \<open>start\<close> are never entered.
\<close>

datatype out_event = Print json | Flush

text \<open>
  The body of \<open>while True\<close> in \<open>StdioTransport.start\<close>. A stream that never ends keeps
  the loop running: the result is \<open>None\<close> then, and \<open>Some\<close> of the server and the
  output when the loop is left by \<open>break\<close>.
\<close>

partial_function (option) read_loop ::
  "py_env \<Rightarrow> (nat \<Rightarrow> string) \<Rightarrow> nat \<Rightarrow> mcp_server \<Rightarrow> out_event list
     \<Rightarrow> (mcp_server \<times> out_event list) option" where
  "read_loop env stdin i srv out =
     (if stdin i = [] then Some (srv, out)
      else if strip (stdin i) = [] then read_loop env stdin (Suc i) srv out
      else (case handle_message env srv (strip (stdin i)) of
              (None, srv') \<Rightarrow> read_loop env stdin (Suc i) srv' out
            | (Some response, srv') \<Rightarrow>
                read_loop env stdin (Suc i) srv' (out @ [Print response, Flush])))"

declare read_loop.simps [code]

definition start :: "py_env \<Rightarrow> mcp_server \<Rightarrow> (nat \<Rightarrow> string) \<Rightarrow> (mcp_server \<times> out_event list) option" where
  "start env srv stdin = read_loop env stdin 0 srv []"



section \<open>Schema derivation (the tool decorator)\<close>

text \<open>
  The annotation objects the decorator inspects: the builtin classes, \<open>type(None)\<close>,
  a subscripted generic with its \<open>get_origin\<close> and \<open>get_args\<close> (\<open>List[int]\<close>,
  \<open>Dict[str, Any]\<close>, \<open>Optional[int]\<close>, which is \<open>Union[int, None]\<close>), and any other
  object (no annotation, \<open>Any\<close>, a user class).
\<close>

datatype origin = OList | ODict | OUnion | OOther string

datatype py_type =
    TStr | TInt | TFloat | TBool | TList | TDict | TNoneType
  | TGeneric origin "py_type list"
  | TOther string

definition get_origin :: "py_type \<Rightarrow> origin option" where
  "get_origin t = (case t of TGeneric orig _ \<Rightarrow> Some orig | _ \<Rightarrow> None)"

definition get_args :: "py_type \<Rightarrow> py_type list" where
  "get_args t = (case t of TGeneric _ args \<Rightarrow> args | _ \<Rightarrow> [])"

function python_type_to_json_type :: "py_type \<Rightarrow> string" where
  "python_type_to_json_type py_type =
     (if py_type = TStr then ''string''
      else if py_type = TInt then ''integer''
      else if py_type = TFloat then ''number''
      else if py_type = TBool then ''boolean''
      else if py_type = TList \<or> get_origin py_type = Some OList then ''array''
      else if py_type = TDict \<or> get_origin py_type = Some ODict then ''object''
      else if py_type = TNoneType then ''null''
      else if get_origin py_type = Some OUnion then
        (case filter (\<lambda>arg. arg \<noteq> TNoneType) (get_args py_type) of
           [a] \<Rightarrow> python_type_to_json_type a
         | _ \<Rightarrow> ''object'')
      else ''string'')"
  by pat_completeness auto
termination
proof (relation "measure size")
  show "wf (measure size)" by simp
next
  fix py_type :: py_type and x21 x22
  assume o: "get_origin py_type = Some OUnion"
    and f: "filter (\<lambda>arg. arg \<noteq> TNoneType) (get_args py_type) = x21 # x22" and "x22 = []"
  from o obtain orig args where t: "py_type = TGeneric orig args"
    by (cases py_type) (simp_all add: get_origin_def)
  from f have "x21 \<in> set (filter (\<lambda>arg. arg \<noteq> TNoneType) (get_args py_type))" by simp
  with t have "x21 \<in> set args" by (simp add: get_args_def)
  then have "size x21 < Suc (size_list size args)"
    by (induction args) auto
  with t show "(x21, py_type) \<in> measure size" by simp
qed

declare python_type_to_json_type.simps [simp del]

text \<open>
  One entry of \<open>inspect.signature(func).parameters\<close>: its name, its annotation, and
  whether it has a default (\<open>param.default is not inspect.Parameter.empty\<close>). The names
  of a signature are pairwise distinct.
\<close>

record parameter =
  pname :: string
  annotation :: py_type
  has_default :: bool

record py_function =
  func_name :: string
  parameters :: "parameter list"

definition is_optional :: "py_type \<Rightarrow> bool" where
  "is_optional param_type = (get_origin param_type = Some OUnion \<and> TNoneType \<in> set (get_args param_type))"

definition params_to_inspect :: "py_function \<Rightarrow> parameter list" where
  "params_to_inspect func = (case parameters func of
       [] \<Rightarrow> []
     | p # ps \<Rightarrow> if pname p = ''self'' then ps else p # ps)"

text \<open>The loop over the parameters, threading \<open>properties\<close> and \<open>required\<close>.\<close>

fun inspect_params ::
  "parameter list \<Rightarrow> (string \<times> json) list \<Rightarrow> string list \<Rightarrow> (string \<times> json) list \<times> string list" where
  "inspect_params [] properties required = (properties, required)"
| "inspect_params (param # rest) properties required =
     (let prop_def = JObj [(''type'', JStr (python_type_to_json_type (annotation param)))];
          required' = (if \<not> has_default param \<and> \<not> is_optional (annotation param)
                       then required @ [pname param] else required)
      in inspect_params rest (dict_set properties (pname param) prop_def) required')"

text \<open>
  The decorator \<open>tool(name, description)\<close> applied to \<open>func\<close>: the three attributes
  it stores on the function (\<open>_tool_name\<close>, \<open>_tool_description\<close>,
  \<open>_tool_input_schema\<close>). \<open>name or func.__name__\<close> takes the function's name when
  \<open>name\<close> is \<open>None\<close> or empty.
\<close>

definition tool_input_schema_of :: "string \<Rightarrow> py_function \<Rightarrow> json" where
  "tool_input_schema_of tname func =
     (case inspect_params (params_to_inspect func) [] [] of
        (properties, required) \<Rightarrow>
          JObj [(''$schema'', JStr ''http://json-schema.org/draft-07/schema#''),
                (''type'', JStr ''object''),
                (''properties'', JObj properties),
                (''required'', JArr (map JStr required)),
                (''title'', JStr (tname @ ''_params''))])"

definition tool :: "string option \<Rightarrow> string \<Rightarrow> py_function \<Rightarrow> string \<times> string \<times> json" where
  "tool name description func =
     (let tname = (case name of None \<Rightarrow> func_name func
                   | Some n \<Rightarrow> if n = [] then func_name func else n)
      in (tname, description, tool_input_schema_of tname func))"

text \<open>The implicit receiver: the first parameter, when it is named \<open>self\<close>.\<close>

definition is_receiver :: "py_function \<Rightarrow> parameter \<Rightarrow> bool" where
  "is_receiver func p = (parameters func \<noteq> [] \<and> p = hd (parameters func) \<and> pname p = ''self'')"

definition sample_function :: py_function where
  "sample_function = \<lparr>func_name = ''get_wazuh_vulnerability_summary'',
     parameters =
       [\<lparr>pname = ''self'', annotation = TOther ''empty'', has_default = False\<rparr>,
        \<lparr>pname = ''agent_id'', annotation = TStr, has_default = False\<rparr>,
        \<lparr>pname = ''limit'', annotation = TGeneric OUnion [TInt, TNoneType], has_default = True\<rparr>,
        \<lparr>pname = ''severity'', annotation = TGeneric OUnion [TStr, TNoneType], has_default = False\<rparr>,
        \<lparr>pname = ''offset'', annotation = TInt, has_default = True\<rparr>]\<rparr>"

text \<open>Reading the derived schema back: the strings listed under \<open>required\<close>.\<close>

definition schema_required :: "json \<Rightarrow> string list" where
  "schema_required schema = (case schema of
       JObj kv \<Rightarrow> (case map_of kv ''required'' of
                     Some (JArr xs) \<Rightarrow> concat (map (\<lambda>x. case x of JStr s \<Rightarrow> [s] | _ \<Rightarrow> []) xs)
                   | _ \<Rightarrow> [])
     | _ \<Rightarrow> [])"

definition schema_title :: "json \<Rightarrow> json" where
  "schema_title schema = (case schema of JObj kv \<Rightarrow> dict_get kv ''title'' | _ \<Rightarrow> JNull)"

section \<open>The authenticated client (wazuh_client.py)\<close>

text \<open>
  The remote API is a script: the answer to the n-th authentication call and to the
  n-th resource call, each either a response (status, body text) or an
  \<open>aiohttp.ClientError\<close> (with its text). The world records every call made, in order;
  a resource call is recorded with the HTTP method and endpoint it was made for and the
  \<open>Authorization\<close> header it carried.
\<close>

datatype http_result = Response int string | ClientError string

datatype call = AuthCall | ApiCall "string \<times> string" string

record world =
  auth_script :: "nat \<Rightarrow> http_result"
  api_script :: "nat \<Rightarrow> http_result"
  calls :: "call list"

definition is_api_call :: "call \<Rightarrow> bool" where
  "is_api_call c = (case c of ApiCall _ _ \<Rightarrow> True | AuthCall \<Rightarrow> False)"

definition n_auth :: "world \<Rightarrow> nat" where
  "n_auth w = length (filter (\<lambda>c. c = AuthCall) (calls w))"

definition n_api :: "world \<Rightarrow> nat" where
  "n_api w = length (filter is_api_call (calls w))"

definition session_post :: "world \<Rightarrow> http_result \<times> world" where
  "session_post w = (auth_script w (n_auth w), w\<lparr>calls := calls w @ [AuthCall]\<rparr>)"

definition session_request :: "string \<times> string \<Rightarrow> string \<Rightarrow> world \<Rightarrow> http_result \<times> world" where
  "session_request req authorization w =
     (api_script w (n_api w), w\<lparr>calls := calls w @ [ApiCall req authorization]\<rparr>)"

text \<open>
  The client: whether \<open>_session\<close> is set (inside \<open>async with\<close>), and the token, \<open>JNull\<close>
  for \<open>None\<close>.
\<close>

record client =
  session :: bool
  token :: json

definition not_initialized :: client_exn where
  "not_initialized = WazuhApiError
     (''Client session not initialized. Use '' @ [CHR 0x27] @ ''async with'' @ [CHR 0x27] @
      '' for WazuhClientBase.'') None"

definition authenticate :: "py_env \<Rightarrow> client \<Rightarrow> world \<Rightarrow> (client_exn + json) \<times> client \<times> world" where
  "authenticate env c w =
     (if \<not> session c then (Inl not_initialized, c, w)
      else
        (case session_post w of
           (ClientError e, w') \<Rightarrow>
             (Inl (WazuhApiError (''Connection error during authentication: '' @ e) (Some 503)), c, w')
         | (Response status body, w') \<Rightarrow>
             if status = 200 then
               (case json_loads env body of
                  None \<Rightarrow> (Inl JSONDecodeError, c, w')
                | Some (JObj data) \<Rightarrow>
                    (case dict_get_default data ''data'' (JObj []) of
                       JObj inner \<Rightarrow>
                         (Inr (dict_get inner ''token''), c\<lparr>token := dict_get inner ''token''\<rparr>, w')
                     | v \<Rightarrow> (Inl (ResponseAttributeError (no_attribute v ''get'')), c, w'))
                | Some v \<Rightarrow> (Inl (ResponseAttributeError (no_attribute v ''get'')), c, w'))
             else
               (Inl (WazuhApiError (''Authentication failed: '' @ show_int status @ '' - '' @ body)
                       (Some status)), c, w')))"

definition bearer :: "py_env \<Rightarrow> json \<Rightarrow> string" where
  "bearer env tok = ''Bearer '' @ py_str env tok"

text \<open>\<open>if not self.token: await self.authenticate()\<close>, the first step of a request.\<close>

definition ensure_token :: "py_env \<Rightarrow> client \<Rightarrow> world \<Rightarrow> (client_exn + json) \<times> client \<times> world" where
  "ensure_token env c w = (if \<not> truthy (token c) then authenticate env c w else (Inr (token c), c, w))"

definition make_request ::
  "py_env \<Rightarrow> string \<times> string \<Rightarrow> client \<Rightarrow> world \<Rightarrow> (client_exn + json) \<times> client \<times> world" where
  "make_request env req c w =
     (if \<not> session c then (Inl not_initialized, c, w)
      else
        (case ensure_token env c w of
           (Inl e, c1, w1) \<Rightarrow> (Inl e, c1, w1)
         | (Inr _, c1, w1) \<Rightarrow>
            (case session_request req (bearer env (token c1)) w1 of
               (ClientError e, w2) \<Rightarrow>
                 (Inl (WazuhApiError (''Connection error: '' @ e) (Some 503)), c1, w2)
             | (Response status response_text, w2) \<Rightarrow>
                 if status = 200 then
                   (case json_loads env response_text of
                      Some j \<Rightarrow> (Inr j, c1, w2)
                    | None \<Rightarrow>
                        (Inl (WazuhApiError (''Invalid JSON response: '' @ response_text) None), c1, w2))
                 else if status = 401 then
                   (case authenticate env (c1\<lparr>token := JNull\<rparr>) w2 of
                      (Inl e, c3, w3) \<Rightarrow> (Inl e, c3, w3)
                    | (Inr _, c3, w3) \<Rightarrow>
                       (case session_request req (bearer env (token c3)) w3 of
                          (ClientError e, w4) \<Rightarrow>
                            (Inl (WazuhApiError (''Connection error: '' @ e) (Some 503)), c3, w4)
                        | (Response retry_status retry_text, w4) \<Rightarrow>
                            if retry_status = 200 then
                              (case json_loads env retry_text of
                                 Some j \<Rightarrow> (Inr j, c3, w4)
                               | None \<Rightarrow> (Inl JSONDecodeError, c3, w4))
                            else
                              (Inl (WazuhApiError
                                      (''API request failed after re-auth: '' @
                                       show_int retry_status @ '' - '' @ retry_text)
                                      (Some retry_status)), c3, w4)))
                 else
                   (Inl (WazuhApiError
                           (''API request failed: '' @ show_int status @ '' - '' @ response_text)
                           (Some status)), c1, w2))))"

text \<open>
  The answer to the call made last: the entry of the script that the last recorded call
  was answered with.
\<close>

definition answer_of_last_call :: "world \<Rightarrow> http_result option" where
  "answer_of_last_call w = (if calls w = [] then None
     else Some (case last (calls w) of
                  AuthCall \<Rightarrow> auth_script w (n_auth w - 1)
                | ApiCall _ _ \<Rightarrow> api_script w (n_api w - 1)))"

definition body_token1 :: string where
  \<open>body_token1 = ''{"data":{"token":"tok1"}}''\<close>

definition body_token2 :: string where
  \<open>body_token2 = ''{"data":{"token":"tok2"}}''\<close>

definition body_agents :: string where
  \<open>body_agents = ''{"data":{"affected_items":[]}}''\<close>

definition client_table :: "(string \<times> json) list" where
  "client_table =
     [(body_token1, JObj [(''data'', JObj [(''token'', JStr ''tok1'')])]),
      (body_token2, JObj [(''data'', JObj [(''token'', JStr ''tok2'')])]),
      (body_agents, JObj [(''data'', JObj [(''affected_items'', JArr [])])])]"

definition fresh_client :: client where
  "fresh_client = \<lparr>session = True, token = JNull\<rparr>"

definition get_agents :: "string \<times> string" where
  "get_agents = (''GET'', ''/agents'')"

text \<open>
  Four remote APIs: one that rejects the first resource call with 401 and accepts the
  second, one that answers every resource call with 401, one that answers with 500, and
  one that cannot be reached. The first three hand out \<open>tok1\<close> on the first
  authentication and \<open>tok2\<close> afterwards.
\<close>

definition token_script :: "nat \<Rightarrow> http_result" where
  "token_script n = Response 200 (if n = 0 then body_token1 else body_token2)"

definition expired_once :: world where
  "expired_once = \<lparr>auth_script = token_script,
     api_script = (\<lambda>n. if n = 0 then Response 401 ''token expired'' else Response 200 body_agents),
     calls = []\<rparr>"

definition expired_twice :: world where
  "expired_twice = \<lparr>auth_script = token_script,
     api_script = (\<lambda>n. Response 401 ''token expired''), calls = []\<rparr>"

definition failing_api :: world where
  "failing_api = \<lparr>auth_script = token_script,
     api_script = (\<lambda>n. Response 500 ''Internal Server Error''), calls = []\<rparr>"

definition unreachable_api :: world where
  "unreachable_api = \<lparr>auth_script = (\<lambda>n. ClientError ''Cannot connect to host''),
     api_script = (\<lambda>n. ClientError ''Cannot connect to host''), calls = []\<rparr>"

section \<open>Reading envelopes, and sample data\<close>

definition envelope_field :: "json \<Rightarrow> string \<Rightarrow> json option" where
  "envelope_field v k = (case v of JObj kv \<Rightarrow> map_of kv k | _ \<Rightarrow> None)"

definition error_code :: "json \<Rightarrow> json option" where
  "error_code v = (case envelope_field v ''error'' of
       Some e \<Rightarrow> envelope_field e ''code''
     | None \<Rightarrow> None)"

text \<open>
  An interpreter whose parser is a finite table of input lines with their parses, for
  the worked examples.
\<close>

definition table_env :: "(string \<times> json) list \<Rightarrow> py_env" where
  "table_env table = \<lparr>json_loads = map_of table, repr_other = (\<lambda>_. ''<object>'')\<rparr>"

definition sample_tools :: "(string \<times> tool_info) list" where
  "sample_tools =
     [(''get_wazuh_agents'',
       \<lparr>tool_name = ''get_wazuh_agents'', tool_description = ''List the agents.'',
        tool_input_schema = JObj [],
        tool_method = Some (\<lambda>args. Raises ''Connection error: refused'')\<rparr>),
      (''server_version'',
       \<lparr>tool_name = ''server_version'', tool_description = ''The version.'',
        tool_input_schema = JObj [],
        tool_method = Some (\<lambda>args. Returns (OtherValue ''0.2.4''))\<rparr>)]"

definition sample_server :: mcp_server where
  "sample_server = new_server
     \<lparr>tools_attr = Some sample_tools,
      get_info = \<lparr>protocol_version = V_2024_11_05,
                  server_info = \<lparr>impl_name = ''mcp-server-wazuh-python'', impl_version = ''0.2.4''\<rparr>,
                  instructions = None\<rparr>\<rparr>"

definition line_call_agents :: string where
  \<open>line_call_agents =
     ''{"jsonrpc":"2.0","id":1,"method":"tools/call","params":{"name":"get_wazuh_agents"}}''\<close>

definition json_call_agents :: json where
  "json_call_agents = JObj [(''jsonrpc'', JStr ''2.0''), (''id'', JInt 1),
     (''method'', JStr ''tools/call''),
     (''params'', JObj [(''name'', JStr ''get_wazuh_agents'')])]"

definition line_call_version :: string where
  \<open>line_call_version =
     ''{"jsonrpc":"2.0","id":2,"method":"tools/call","params":{"name":"server_version"}}''\<close>

definition json_call_version :: json where
  "json_call_version = JObj [(''jsonrpc'', JStr ''2.0''), (''id'', JInt 2),
     (''method'', JStr ''tools/call''),
     (''params'', JObj [(''name'', JStr ''server_version'')])]"

definition line_call_noname :: string where
  \<open>line_call_noname = ''{"jsonrpc":"2.0","id":3,"method":"tools/call","params":{}}''\<close>

definition json_call_noname :: json where
  "json_call_noname = JObj [(''jsonrpc'', JStr ''2.0''), (''id'', JInt 3),
     (''method'', JStr ''tools/call''), (''params'', JObj [])]"

definition line_call_unknown :: string where
  \<open>line_call_unknown =
     ''{"jsonrpc":"2.0","id":4,"method":"tools/call","params":{"name":"nope"}}''\<close>

definition json_call_unknown :: json where
  "json_call_unknown = JObj [(''jsonrpc'', JStr ''2.0''), (''id'', JInt 4),
     (''method'', JStr ''tools/call''), (''params'', JObj [(''name'', JStr ''nope'')])]"

definition line_list_noid :: string where
  \<open>line_list_noid = ''{"jsonrpc":"2.0","method":"tools/list"}''\<close>

definition json_list_noid :: json where
  "json_list_noid = JObj [(''jsonrpc'', JStr ''2.0''), (''method'', JStr ''tools/list'')]"

definition line_notag :: string where
  \<open>line_notag = ''{"id":7,"method":"tools/list"}''\<close>

definition json_notag :: json where
  "json_notag = JObj [(''id'', JInt 7), (''method'', JStr ''tools/list'')]"

definition line_initialized :: string where
  \<open>line_initialized = ''{"jsonrpc":"2.0","method":"notifications/initialized"}''\<close>

definition json_initialized :: json where
  "json_initialized = JObj [(''jsonrpc'', JStr ''2.0''),
     (''method'', JStr ''notifications/initialized'')]"

definition line_frobnicate :: string where
  \<open>line_frobnicate = ''{"jsonrpc":"2.0","id":5,"method":"frobnicate"}''\<close>

definition json_frobnicate :: json where
  "json_frobnicate = JObj [(''jsonrpc'', JStr ''2.0''), (''id'', JInt 5),
     (''method'', JStr ''frobnicate'')]"

definition line_array :: string where
  "line_array = ''[1]''"

definition line_oldver :: string where
  \<open>line_oldver = ''{"jsonrpc":"1.0","id":8,"method":"tools/list"}''\<close>

definition json_oldver :: json where
  "json_oldver = JObj [(''jsonrpc'', JStr ''1.0''), (''id'', JInt 8),
     (''method'', JStr ''tools/list'')]"

definition line_nomethod :: string where
  \<open>line_nomethod = ''{"jsonrpc":"2.0","id":9}''\<close>

definition json_nomethod :: json where
  "json_nomethod = JObj [(''jsonrpc'', JStr ''2.0''), (''id'', JInt 9)]"

definition line_garbage :: string where
  "line_garbage = ''{oops''"

definition sample_table :: "(string \<times> json) list" where
  "sample_table =
     [(line_call_agents, json_call_agents), (line_call_version, json_call_version),
      (line_call_noname, json_call_noname), (line_call_unknown, json_call_unknown),
      (line_list_noid, json_list_noid), (line_notag, json_notag),
      (line_initialized, json_initialized), (line_frobnicate, json_frobnicate),
      (line_array, JArr [JInt 1]), (line_oldver, json_oldver),
      (line_nomethod, json_nomethod)]"

text \<open>The input stream that delivers the given lines and then end of file.\<close>

definition stream_of :: "string list \<Rightarrow> nat \<Rightarrow> string" where
  "stream_of ls i = (if i < length ls then ls ! i else [])"



text \<open>The line is a well-formed request of the method \<open>notifications/initialized\<close>.\<close>

definition initialized_notification :: "py_env \<Rightarrow> string \<Rightarrow> bool" where
  "initialized_notification env message = (case json_loads env message of
       Some (JObj request) \<Rightarrow>
         map_of request ''jsonrpc'' = Some (JStr ''2.0'') \<and>
         map_of request ''method'' = Some (JStr ''notifications/initialized'')
     | _ \<Rightarrow> False)"

section \<open>Properties of format_agent_id\<close>

















section \<open>Properties of the dispatcher\<close>

lemma sample_server_handler: "tools_attr (handler sample_server) = Some sample_tools"
  by (simp add: sample_server_def new_server_def register_tools_def)

lemma lookups:
  "json_loads (table_env sample_table) line_call_agents = Some json_call_agents"
  "json_loads (table_env sample_table) line_call_version = Some json_call_version"
  "json_loads (table_env sample_table) line_call_noname = Some json_call_noname"
  "json_loads (table_env sample_table) line_call_unknown = Some json_call_unknown"
  "json_loads (table_env sample_table) line_list_noid = Some json_list_noid"
  "json_loads (table_env sample_table) line_notag = Some json_notag"
  "json_loads (table_env sample_table) line_initialized = Some json_initialized"
  "json_loads (table_env sample_table) line_frobnicate = Some json_frobnicate"
  "json_loads (table_env sample_table) line_array = Some (JArr [JInt 1])"
  "json_loads (table_env sample_table) line_oldver = Some json_oldver"
  "json_loads (table_env sample_table) line_nomethod = Some json_nomethod"
  "json_loads (table_env sample_table) line_garbage = None"
  by (simp_all add: table_env_def sample_table_def line_call_agents_def line_call_version_def
      line_call_noname_def line_call_unknown_def line_list_noid_def line_notag_def
      line_initialized_def line_frobnicate_def line_array_def line_oldver_def
      line_nomethod_def line_garbage_def)

text \<open>
  Claim C1. A \<open>tools/call\<close> request that names a registered tool whose method raises
  when it is invoked is answered by a success envelope: the request's id, a \<open>result\<close>
  with \<open>isError\<close> true and one text item that describes the failure, and no \<open>error\<close>
  member.
\<close>

theorem tool_error_containment:
  assumes "json_loads env message = Some (JObj request)"
    and "map_of request ''jsonrpc'' = Some (JStr ''2.0'')"
    and "map_of request ''method'' = Some (JStr ''tools/call'')"
    and "dict_get_default request ''params'' (JObj []) = JObj params"
    and "map_of params ''name'' = Some (JStr name)" and "name \<noteq> []"
    and "tools_attr (handler srv) = Some registry"
    and "map_of registry name = Some info"
    and "tool_method info = Some m"
    and "call_tool m (dict_get_default params ''arguments'' (JObj [])) = Raises e"
  shows "handle_message env srv message =
      (Some (create_success_response (dict_get request ''id'')
         (JObj [(''content'', JArr [JObj [(''type'', JStr ''text''),
                                          (''text'', JStr (''Error calling tool: '' @ e))]]),
                (''isError'', JBool True)])), srv)
    \<and> envelope_field (create_success_response (dict_get request ''id'')
         (JObj [(''content'', JArr [JObj [(''type'', JStr ''text''),
                                          (''text'', JStr (''Error calling tool: '' @ e))]]),
                (''isError'', JBool True)])) ''error'' = None"
  using assms
  by (simp add: handle_message_def handle_tools_call_def find_tool_def dict_get_def
      text_item_def envelope_field_def create_success_response_def)

theorem tool_error_containment_witness:
  "handle_message (table_env sample_table) sample_server line_call_agents =
     (Some (JObj [(''jsonrpc'', JStr ''2.0''), (''id'', JInt 1),
        (''result'', JObj [(''content'', JArr [JObj [(''type'', JStr ''text''),
              (''text'', JStr ''Error calling tool: Connection error: refused'')]]),
           (''isError'', JBool True)])]), sample_server)"
proof -
  let ?info = "\<lparr>tool_name = ''get_wazuh_agents'', tool_description = ''List the agents.'',
        tool_input_schema = JObj [],
        tool_method = Some (\<lambda>args. Raises ''Connection error: refused'')\<rparr>"
  have "handle_message (table_env sample_table) sample_server line_call_agents =
      (Some (create_success_response
         (dict_get [(''jsonrpc'', JStr ''2.0''), (''id'', JInt 1),
            (''method'', JStr ''tools/call''),
            (''params'', JObj [(''name'', JStr ''get_wazuh_agents'')])] ''id'')
         (JObj [(''content'', JArr [JObj [(''type'', JStr ''text''),
                  (''text'', JStr (''Error calling tool: '' @ ''Connection error: refused''))]]),
                (''isError'', JBool True)])), sample_server)"
    using tool_error_containment [of "table_env sample_table" line_call_agents
        "[(''jsonrpc'', JStr ''2.0''), (''id'', JInt 1), (''method'', JStr ''tools/call''),
          (''params'', JObj [(''name'', JStr ''get_wazuh_agents'')])]"
        "[(''name'', JStr ''get_wazuh_agents'')]" "''get_wazuh_agents''" sample_server
        sample_tools ?info "\<lambda>args. Raises ''Connection error: refused''"
        "''Connection error: refused''"]
    by (simp add: lookups json_call_agents_def dict_get_default_def sample_server_handler
        sample_tools_def call_tool_def)
  then show ?thesis by (simp add: create_success_response_def dict_get_def)
qed

text \<open>
  Claim C9. A \<open>tools/call\<close> request whose tool method returns a value that is not a
  \<open>CallToolResult\<close> is answered by a success envelope whose result holds the string
  form of that value as its one text item, with \<open>isError\<close> false.
\<close>

theorem tool_plain_value_wrapped:
  assumes "json_loads env message = Some (JObj request)"
    and "map_of request ''jsonrpc'' = Some (JStr ''2.0'')"
    and "map_of request ''method'' = Some (JStr ''tools/call'')"
    and "dict_get_default request ''params'' (JObj []) = JObj params"
    and "map_of params ''name'' = Some (JStr name)" and "name \<noteq> []"
    and "tools_attr (handler srv) = Some registry"
    and "map_of registry name = Some info"
    and "tool_method info = Some m"
    and "call_tool m (dict_get_default params ''arguments'' (JObj [])) = Returns (OtherValue s)"
  shows "handle_message env srv message =
      (Some (create_success_response (dict_get request ''id'')
         (JObj [(''content'', JArr [JObj [(''type'', JStr ''text''), (''text'', JStr s)]]),
                (''isError'', JBool False)])), srv)
    \<and> envelope_field (create_success_response (dict_get request ''id'')
         (JObj [(''content'', JArr [JObj [(''type'', JStr ''text''), (''text'', JStr s)]]),
                (''isError'', JBool False)])) ''error'' = None"
  using assms
  by (simp add: handle_message_def handle_tools_call_def find_tool_def dict_get_def
      text_item_def envelope_field_def create_success_response_def)

theorem tool_plain_value_wrapped_witness:
  "handle_message (table_env sample_table) sample_server line_call_version =
     (Some (JObj [(''jsonrpc'', JStr ''2.0''), (''id'', JInt 2),
        (''result'', JObj [(''content'', JArr [JObj [(''type'', JStr ''text''),
              (''text'', JStr ''0.2.4'')]]),
           (''isError'', JBool False)])]), sample_server)"
proof -
  let ?info = "\<lparr>tool_name = ''server_version'', tool_description = ''The version.'',
        tool_input_schema = JObj [],
        tool_method = Some (\<lambda>args. Returns (OtherValue ''0.2.4''))\<rparr>"
  have "handle_message (table_env sample_table) sample_server line_call_version =
      (Some (create_success_response
         (dict_get [(''jsonrpc'', JStr ''2.0''), (''id'', JInt 2),
            (''method'', JStr ''tools/call''),
            (''params'', JObj [(''name'', JStr ''server_version'')])] ''id'')
         (JObj [(''content'', JArr [JObj [(''type'', JStr ''text''), (''text'', JStr ''0.2.4'')]]),
                (''isError'', JBool False)])), sample_server)"
    using tool_plain_value_wrapped [of "table_env sample_table" line_call_version
        "[(''jsonrpc'', JStr ''2.0''), (''id'', JInt 2), (''method'', JStr ''tools/call''),
          (''params'', JObj [(''name'', JStr ''server_version'')])]"
        "[(''name'', JStr ''server_version'')]" "''server_version''" sample_server
        sample_tools ?info "\<lambda>args. Returns (OtherValue ''0.2.4'')" "''0.2.4''"]
    by (simp add: lookups json_call_version_def dict_get_default_def sample_server_handler
        sample_tools_def call_tool_def)
  then show ?thesis by (simp add: create_success_response_def dict_get_def)
qed

text \<open>
  The two \<open>JsonRpcError\<close>s of \<open>_handle_tools_call\<close> are caught by the handler for
  \<open>Exception\<close> of \<open>handle_message\<close>, which reports every exception with the code
  \<open>INTERNAL_ERROR\<close>; the code the exception carries only shows in the message.
\<close>

lemma show_int_codes:
  "show_int INVALID_PARAMS = ''-32602''" "show_int METHOD_NOT_FOUND = ''-32601''"
  by (simp_all add: show_int_def INVALID_PARAMS_def METHOD_NOT_FOUND_def dec_nat.simps
      digit_char_def)

lemma tools_call_missing_name:
  assumes "json_loads env message = Some (JObj request)"
    and "map_of request ''jsonrpc'' = Some (JStr ''2.0'')"
    and "map_of request ''method'' = Some (JStr ''tools/call'')"
    and "dict_get_default request ''params'' (JObj []) = JObj params"
    and "map_of params ''name'' = None"
  shows "handle_message env srv message =
      (Some (create_error_response (dict_get request ''id'') INTERNAL_ERROR
               ''JSON-RPC Error -32602: Missing tool name''), srv)"
  using assms
  by (simp add: handle_message_def handle_tools_call_def dict_get_def exn_str_def show_int_codes)

lemma tools_call_unknown_tool:
  assumes "json_loads env message = Some (JObj request)"
    and "map_of request ''jsonrpc'' = Some (JStr ''2.0'')"
    and "map_of request ''method'' = Some (JStr ''tools/call'')"
    and "dict_get_default request ''params'' (JObj []) = JObj params"
    and "map_of params ''name'' = Some (JStr name)" and "name \<noteq> []"
    and "tools_attr (handler srv) = Some registry"
    and "map_of registry name = None"
  shows "handle_message env srv message =
      (Some (create_error_response (dict_get request ''id'') INTERNAL_ERROR
               (''JSON-RPC Error -32601: Tool not found: '' @ name)), srv)"
  using assms
  by (simp add: handle_message_def handle_tools_call_def dict_get_def exn_str_def show_int_codes
      find_tool_def tool_not_found_def py_str_def)

text \<open>
  Claim C3 states the codes \<open>INVALID_PARAMS\<close> (-32602) for a \<open>tools/call\<close> without a
  name and \<open>METHOD_NOT_FOUND\<close> (-32601) for an unknown tool. Evaluated on a request
  without a name and on one that names a tool the registry does not hold, the dispatcher
  returns an error envelope with the code -32603 both times.
\<close>

theorem tools_call_protocol_errors_internal:
  "handle_message (table_env sample_table) sample_server line_call_noname =
     (Some (JObj [(''jsonrpc'', JStr ''2.0''), (''id'', JInt 3),
        (''error'', JObj [(''code'', JInt (- 32603)),
           (''message'', JStr ''JSON-RPC Error -32602: Missing tool name'')])]), sample_server)
   \<and> handle_message (table_env sample_table) sample_server line_call_unknown =
     (Some (JObj [(''jsonrpc'', JStr ''2.0''), (''id'', JInt 4),
        (''error'', JObj [(''code'', JInt (- 32603)),
           (''message'', JStr ''JSON-RPC Error -32601: Tool not found: nope'')])]), sample_server)
   \<and> INVALID_PARAMS = - 32602 \<and> METHOD_NOT_FOUND = - 32601"
proof -
  have a: "handle_message (table_env sample_table) sample_server line_call_noname =
      (Some (create_error_response (dict_get [(''jsonrpc'', JStr ''2.0''), (''id'', JInt 3),
     (''method'', JStr ''tools/call''), (''params'', JObj [])] ''id'') INTERNAL_ERROR
               ''JSON-RPC Error -32602: Missing tool name''), sample_server)"
    by (rule tools_call_missing_name [where params = "[]"])
      (simp_all add: lookups json_call_noname_def dict_get_default_def)
  have b: "handle_message (table_env sample_table) sample_server line_call_unknown =
      (Some (create_error_response (dict_get [(''jsonrpc'', JStr ''2.0''), (''id'', JInt 4),
     (''method'', JStr ''tools/call''), (''params'', JObj [(''name'', JStr ''nope'')])] ''id'') INTERNAL_ERROR
               (''JSON-RPC Error -32601: Tool not found: '' @ ''nope'')), sample_server)"
    by (rule tools_call_unknown_tool [where params = "[(''name'', JStr ''nope'')]"
          and registry = sample_tools])
      (simp_all add: lookups json_call_unknown_def dict_get_default_def sample_server_handler
        sample_tools_def)
  from a b show ?thesis
    by (simp add: create_error_response_def dict_get_def INTERNAL_ERROR_def INVALID_PARAMS_def
        METHOD_NOT_FOUND_def)
qed











section \<open>Properties of the transport loop\<close>



lemma strip_sample_lines:
  "strip (line_frobnicate @ [CHR 0x0A]) = line_frobnicate"
  "strip (line_initialized @ [CHR 0x0A]) = line_initialized"
  "strip (line_list_noid @ [CHR 0x0A]) = line_list_noid"
  "strip [CHR 0x20, CHR 0x20, CHR 0x0A] = []"
  by (simp_all add: strip_def py_isspace_def line_frobnicate_def line_initialized_def
      line_list_noid_def)

lemma sample_lines_nonempty:
  "line_frobnicate \<noteq> []" "line_initialized \<noteq> []" "line_list_noid \<noteq> []"
  by (simp_all add: line_frobnicate_def line_initialized_def line_list_noid_def)

lemma hm_initialized:
  "initialized_notification env m \<Longrightarrow>
     handle_message env srv m = (None, srv\<lparr>initialized := True\<rparr>)"
  by (auto simp: initialized_notification_def handle_message_def dict_get_def
      split: option.splits json.splits)

lemma hm_none_iff: "(fst (handle_message env srv m) = None) = initialized_notification env m"
proof
  assume "initialized_notification env m"
  then show "fst (handle_message env srv m) = None" by (simp add: hm_initialized)
next
  assume a: "fst (handle_message env srv m) = None"
  show "initialized_notification env m"
  proof (cases "json_loads env m")
    case None
    with a show ?thesis by (simp add: handle_message_def)
  next
    case (Some v)
    show ?thesis
    proof (cases v)
      case (JObj request)
      with a Some show ?thesis
        by (auto simp: handle_message_def initialized_notification_def dict_get_def Let_def
            split: if_splits option.splits sum.splits)
    qed (use a Some in \<open>simp_all add: handle_message_def\<close>)
  qed
qed

lemma hm_tools_list:
  "json_loads env m = Some (JObj request) \<Longrightarrow>
   map_of request ''jsonrpc'' = Some (JStr ''2.0'') \<Longrightarrow>
   map_of request ''method'' = Some (JStr ''tools/list'') \<Longrightarrow>
     handle_message env srv m =
       (Some (create_success_response (dict_get request ''id'')
          (handle_tools_list (handler srv) (dict_get_default request ''params'' (JObj [])))), srv)"
  by (simp add: handle_message_def dict_get_def)

lemma read_loop_one_line:
  assumes "l \<noteq> []" and "strip l \<noteq> []"
  shows "read_loop env (stream_of [l]) 0 srv out =
     Some (snd (handle_message env srv (strip l)),
           out @ (case fst (handle_message env srv (strip l)) of
                    None \<Rightarrow> [] | Some r \<Rightarrow> [Print r, Flush]))"
proof -
  have eof: "\<And>s o'. read_loop env (stream_of [l]) (Suc 0) s o' = Some (s, o')"
    by (subst read_loop.simps) (simp add: stream_of_def)
  show ?thesis using assms
    by (subst read_loop.simps)
      (auto simp: stream_of_def eof split: option.splits prod.splits)
qed


text \<open>
  Claim C4 says that a request without an id is never answered. The request below is
  well formed, has no id and the method \<open>tools/list\<close>: \<open>handle_message\<close> returns an
  envelope (with the id \<open>null\<close>), and the transport writes it.
\<close>

theorem notification_without_id_counterexample:
  "json_loads (table_env sample_table) line_list_noid = Some json_list_noid
   \<and> envelope_field json_list_noid ''id'' = None
   \<and> fst (handle_message (table_env sample_table) sample_server line_list_noid) =
       Some (create_success_response JNull (handle_tools_list (handler sample_server) (JObj [])))
   \<and> start (table_env sample_table) sample_server (stream_of [line_list_noid @ [CHR 0x0A]]) =
       Some (sample_server,
             [Print (create_success_response JNull
                       (handle_tools_list (handler sample_server) (JObj []))), Flush])"
proof -
  have hm: "handle_message (table_env sample_table) sample_server line_list_noid =
      (Some (create_success_response JNull (handle_tools_list (handler sample_server) (JObj []))),
       sample_server)"
    using hm_tools_list [of "table_env sample_table" line_list_noid
        "[(''jsonrpc'', JStr ''2.0''), (''method'', JStr ''tools/list'')]" sample_server]
    by (simp add: lookups json_list_noid_def dict_get_def dict_get_default_def)
  have "start (table_env sample_table) sample_server (stream_of [line_list_noid @ [CHR 0x0A]]) =
       Some (sample_server,
             [Print (create_success_response JNull
                       (handle_tools_list (handler sample_server) (JObj []))), Flush])"
    unfolding start_def
    by (subst read_loop_one_line) (simp_all add: strip_sample_lines sample_lines_nonempty hm)
  with hm show ?thesis
    by (simp add: lookups json_list_noid_def envelope_field_def)
qed

text \<open>
  Claim C4, amended. \<open>handle_message\<close> returns null exactly for a well-formed request
  whose method is \<open>notifications/initialized\<close>, with or without an id; for such a
  line the transport writes nothing and goes on to the next read, with the server marked
  initialized.
\<close>

theorem notification_silence:
  "(fst (handle_message env srv m) = None) = initialized_notification env m
   \<and> (initialized_notification env (strip (stdin i)) \<and> strip (stdin i) \<noteq> [] \<longrightarrow>
        read_loop env stdin i srv out =
          read_loop env stdin (Suc i) (srv\<lparr>initialized := True\<rparr>) out)"
proof -
  have "read_loop env stdin i srv out =
          read_loop env stdin (Suc i) (srv\<lparr>initialized := True\<rparr>) out"
    if a: "initialized_notification env (strip (stdin i))" and b: "strip (stdin i) \<noteq> []"
  proof -
    from b have "stdin i \<noteq> []" by (auto simp: strip_def)
    with a b show ?thesis
      by (subst read_loop.simps) (simp add: hm_initialized)
  qed
  then show ?thesis by (simp add: hm_none_iff)
qed

theorem notification_silence_witness:
  "fst (handle_message (table_env sample_table) sample_server line_initialized) = None
   \<and> start (table_env sample_table) sample_server (stream_of [line_initialized @ [CHR 0x0A]]) =
       Some (sample_server\<lparr>initialized := True\<rparr>, [])"
proof -
  let ?env = "table_env sample_table"
  let ?stdin = "stream_of [line_initialized @ [CHR 0x0A]]"
  have n: "initialized_notification ?env line_initialized"
    by (simp add: initialized_notification_def lookups json_initialized_def)
  have s: "strip (?stdin 0) = line_initialized"
    by (simp add: stream_of_def strip_sample_lines)
  have eof: "read_loop ?env ?stdin (Suc 0) (sample_server\<lparr>initialized := True\<rparr>) [] =
      Some (sample_server\<lparr>initialized := True\<rparr>, [])"
    by (subst read_loop.simps) (simp add: stream_of_def)
  from notification_silence [of ?env sample_server line_initialized ?stdin 0 "[]"] n s eof
  show ?thesis by (simp add: start_def sample_lines_nonempty)
qed


section \<open>Properties of the schema derivation\<close>

lemma inspect_params_required:
  "snd (inspect_params ps properties required) =
     required @ map pname (filter (\<lambda>p. \<not> has_default p \<and> \<not> is_optional (annotation p)) ps)"
  by (induction ps arbitrary: properties required) (simp_all add: Let_def)

lemma schema_required_tool:
  "schema_required (tool_input_schema_of tname func) =
     map pname (filter (\<lambda>p. \<not> has_default p \<and> \<not> is_optional (annotation p))
                  (params_to_inspect func))"
proof -
  obtain props req where ip: "inspect_params (params_to_inspect func) [] [] = (props, req)"
    by (cases "inspect_params (params_to_inspect func) [] []")
  then have "req = map pname (filter (\<lambda>p. \<not> has_default p \<and> \<not> is_optional (annotation p))
                  (params_to_inspect func))"
    using inspect_params_required [of "params_to_inspect func" "[]" "[]"] by simp
  moreover have "concat (map (\<lambda>x. case x of JStr s \<Rightarrow> [s] | _ \<Rightarrow> []) (map JStr req)) = req"
    by (induction req) simp_all
  ultimately show ?thesis
    by (simp add: tool_input_schema_of_def ip schema_required_def)
qed

lemma schema_title_tool:
  "schema_title (tool_input_schema_of tname func) = JStr (tname @ ''_params'')"
  by (simp add: tool_input_schema_of_def schema_title_def dict_get_def split: prod.splits)

lemma params_to_inspect_distinct:
  "distinct (map pname (parameters func)) \<Longrightarrow> distinct (map pname (params_to_inspect func))"
  by (auto simp: params_to_inspect_def split: list.splits)

lemma params_to_inspect_set:
  assumes "distinct (map pname (parameters func))"
  shows "set (params_to_inspect func) = {p \<in> set (parameters func). \<not> is_receiver func p}"
proof (cases "parameters func")
  case Nil
  then show ?thesis by (simp add: params_to_inspect_def)
next
  case (Cons p0 ps)
  with assms have "p0 \<notin> set ps" by auto
  with Cons show ?thesis
    by (auto simp: params_to_inspect_def is_receiver_def)
qed

text \<open>
  Claim C6. For every parameter of a tool function other than the implicit receiver,
  the derived input schema lists the parameter's name under \<open>required\<close> if and only if
  the parameter has no default and its annotation is not an \<open>Optional\<close> or \<open>Union\<close>
  containing \<open>None\<close>; so a nullable parameter is never required, with or without a
  default. The list \<open>required\<close> holds these names in the order of the signature, and
  the schema's title is the tool's name followed by \<open>_params\<close>. The names of a
  signature are pairwise distinct.
\<close>

theorem schema_required_iff:
  assumes "distinct (map pname (parameters func))"
  shows "(\<forall>p \<in> set (parameters func). \<not> is_receiver func p \<longrightarrow>
           (pname p \<in> set (schema_required (snd (snd (tool name description func)))))
             = (\<not> has_default p \<and> \<not> is_optional (annotation p)))
      \<and> schema_required (snd (snd (tool name description func))) =
           map pname (filter (\<lambda>p. \<not> has_default p \<and> \<not> is_optional (annotation p))
                        (filter (\<lambda>p. \<not> is_receiver func p) (parameters func)))
      \<and> schema_title (snd (snd (tool name description func))) =
           JStr (fst (tool name description func) @ ''_params'')"
proof -
  let ?ps = "params_to_inspect func"
  let ?c = "\<lambda>p. \<not> has_default p \<and> \<not> is_optional (annotation p)"
  have d: "distinct (map pname ?ps)" using assms by (rule params_to_inspect_distinct)
  then have inj: "inj_on pname (set ?ps)" by (simp add: distinct_map)
  have iff: "(pname p \<in> set (map pname (filter ?c ?ps))) = ?c p" if p: "p \<in> set ?ps" for p
  proof
    assume "pname p \<in> set (map pname (filter ?c ?ps))"
    then obtain q where q: "q \<in> set ?ps" "?c q" "pname q = pname p" by auto
    with inj p have "q = p" by (auto dest: inj_onD)
    with q show "?c p" by simp
  next
    assume "?c p"
    with p show "pname p \<in> set (map pname (filter ?c ?ps))" by auto
  qed
  have flt: "?ps = filter (\<lambda>p. \<not> is_receiver func p) (parameters func)"
  proof (cases "parameters func")
    case Nil
    then show ?thesis by (simp add: params_to_inspect_def)
  next
    case (Cons p0 ps)
    with assms have "p0 \<notin> set ps" by auto
    then have "filter (\<lambda>p. p \<noteq> p0) ps = ps" by (induction ps) auto
    with Cons show ?thesis
      by (auto simp: params_to_inspect_def is_receiver_def intro: filter_cong)
  qed
  have "\<forall>p \<in> set (parameters func). \<not> is_receiver func p \<longrightarrow>
           (pname p \<in> set (map pname (filter ?c ?ps))) = ?c p"
    using iff params_to_inspect_set [OF assms] by blast
  then show ?thesis
    using flt by (simp add: tool_def Let_def schema_required_tool schema_title_tool)
qed

theorem schema_required_iff_witness:
  "schema_required (snd (snd (tool None ''Vulnerability summary'' sample_function))) = [''agent_id'']
   \<and> schema_title (snd (snd (tool None ''Vulnerability summary'' sample_function))) =
       JStr ''get_wazuh_vulnerability_summary_params''"
proof -
  have d: "distinct (map pname (parameters sample_function))"
    by (simp add: sample_function_def)
  have r: "\<And>p. is_receiver sample_function p =
      (p = \<lparr>pname = ''self'', annotation = TOther ''empty'', has_default = False\<rparr>)"
    by (auto simp: is_receiver_def sample_function_def)
  have ps: "filter (\<lambda>p. \<not> is_receiver sample_function p) (parameters sample_function) =
      [\<lparr>pname = ''agent_id'', annotation = TStr, has_default = False\<rparr>,
       \<lparr>pname = ''limit'', annotation = TGeneric OUnion [TInt, TNoneType], has_default = True\<rparr>,
       \<lparr>pname = ''severity'', annotation = TGeneric OUnion [TStr, TNoneType], has_default = False\<rparr>,
       \<lparr>pname = ''offset'', annotation = TInt, has_default = True\<rparr>]"
    by (simp add: r) (simp add: sample_function_def)
  have nm: "fst (tool None ''Vulnerability summary'' sample_function) =
      ''get_wazuh_vulnerability_summary''"
    by (simp add: tool_def sample_function_def Let_def)
  from schema_required_iff [OF d, of None "''Vulnerability summary''"]
  have "schema_required (snd (snd (tool None ''Vulnerability summary'' sample_function))) =
           map pname (filter (\<lambda>p. \<not> has_default p \<and> \<not> is_optional (annotation p))
                        (filter (\<lambda>p. \<not> is_receiver sample_function p) (parameters sample_function)))"
    and "schema_title (snd (snd (tool None ''Vulnerability summary'' sample_function))) =
           JStr (fst (tool None ''Vulnerability summary'' sample_function) @ ''_params'')"
    by blast+
  then show ?thesis
    by (simp add: ps nm is_optional_def get_origin_def get_args_def)
qed


section \<open>Properties of the authenticated client\<close>

lemma authenticate_shape:
  assumes "authenticate env c w = (r, c', w')" and "session c"
  shows "w' = w\<lparr>calls := calls w @ [AuthCall]\<rparr>"
    and "session c'"
    and "case r of Inl e \<Rightarrow> c' = c | Inr t \<Rightarrow> c' = c\<lparr>token := t\<rparr>"
  using assms
  by (auto simp: authenticate_def session_post_def
      split: if_splits prod.splits http_result.splits option.splits json.splits)

lemma authenticate_client_error:
  assumes "authenticate env c w = (r, c', w')" and "session c"
    and "auth_script w (n_auth w) = ClientError e"
  shows "r = Inl (WazuhApiError (''Connection error during authentication: '' @ e) (Some 503))"
  using assms by (auto simp: authenticate_def session_post_def)

lemma counts_append [simp]:
  "n_auth (w\<lparr>calls := calls w @ [AuthCall]\<rparr>) = Suc (n_auth w)"
  "n_api (w\<lparr>calls := calls w @ [AuthCall]\<rparr>) = n_api w"
  "n_auth (w\<lparr>calls := calls w @ [ApiCall req h]\<rparr>) = n_auth w"
  "n_api (w\<lparr>calls := calls w @ [ApiCall req h]\<rparr>) = Suc (n_api w)"
  by (simp_all add: n_auth_def n_api_def is_api_call_def)

lemma ensure_token_shape:
  assumes "ensure_token env c w = (r, c1, w1)" and "session c"
  shows "w1 = w \<or> w1 = w\<lparr>calls := calls w @ [AuthCall]\<rparr>"
    and "session c1"
    and "api_script w1 = api_script w" and "auth_script w1 = auth_script w"
    and "n_api w1 = n_api w" and "n_auth w1 \<le> Suc (n_auth w)"
  using assms authenticate_shape [of env c w r c1 w1]
  by (auto simp: ensure_token_def split: if_splits)

lemma make_request_no_session:
  "\<not> session c \<Longrightarrow> make_request env req c w = (Inl not_initialized, c, w)"
  by (simp add: make_request_def)

lemma make_request_auth_failed:
  assumes "session c" and "ensure_token env c w = (Inl e, c1, w1)"
  shows "make_request env req c w = (Inl e, c1, w1)"
  using assms by (simp add: make_request_def)

text \<open>
  What a request does once a token is held, by the answer to its first resource call.
\<close>

lemma make_request_first_answer:
  assumes "session c" and "ensure_token env c w = (Inr t, c1, w1)"
  shows "make_request env req c w =
     (case api_script w (n_api w) of
        ClientError e \<Rightarrow>
          (Inl (WazuhApiError (''Connection error: '' @ e) (Some 503)), c1,
           w1\<lparr>calls := calls w1 @ [ApiCall req (bearer env (token c1))]\<rparr>)
      | Response status body \<Rightarrow>
          if status = 200 then
            (case json_loads env body of
               Some j \<Rightarrow> (Inr j, c1, w1\<lparr>calls := calls w1 @ [ApiCall req (bearer env (token c1))]\<rparr>)
             | None \<Rightarrow> (Inl (WazuhApiError (''Invalid JSON response: '' @ body) None), c1,
                        w1\<lparr>calls := calls w1 @ [ApiCall req (bearer env (token c1))]\<rparr>))
          else if status = 401 then
            (case authenticate env (c1\<lparr>token := JNull\<rparr>)
                    (w1\<lparr>calls := calls w1 @ [ApiCall req (bearer env (token c1))]\<rparr>) of
               (Inl e, c3, w3) \<Rightarrow> (Inl e, c3, w3)
             | (Inr new, c3, w3) \<Rightarrow>
                 (case api_script w (Suc (n_api w)) of
                    ClientError e \<Rightarrow>
                      (Inl (WazuhApiError (''Connection error: '' @ e) (Some 503)), c3,
                       w3\<lparr>calls := calls w3 @ [ApiCall req (bearer env (token c3))]\<rparr>)
                  | Response retry_status retry_text \<Rightarrow>
                      if retry_status = 200 then
                        (case json_loads env retry_text of
                           Some j \<Rightarrow> (Inr j, c3,
                              w3\<lparr>calls := calls w3 @ [ApiCall req (bearer env (token c3))]\<rparr>)
                         | None \<Rightarrow> (Inl JSONDecodeError, c3,
                              w3\<lparr>calls := calls w3 @ [ApiCall req (bearer env (token c3))]\<rparr>))
                      else
                        (Inl (WazuhApiError
                                (''API request failed after re-auth: '' @
                                 show_int retry_status @ '' - '' @ retry_text)
                                (Some retry_status)), c3,
                         w3\<lparr>calls := calls w3 @ [ApiCall req (bearer env (token c3))]\<rparr>)))
          else
            (Inl (WazuhApiError (''API request failed: '' @ show_int status @ '' - '' @ body)
                    (Some status)), c1,
             w1\<lparr>calls := calls w1 @ [ApiCall req (bearer env (token c1))]\<rparr>))"
proof -
  let ?w2 = "w1\<lparr>calls := calls w1 @ [ApiCall req (bearer env (token c1))]\<rparr>"
  from ensure_token_shape [OF assms(2,1)]
  have s1: "session c1" and a: "api_script w1 = api_script w" and n: "n_api w1 = n_api w"
    by simp_all
  have sr: "session_request req (bearer env (token c1)) w1 = (api_script w (n_api w), ?w2)"
    by (simp add: session_request_def a n)
  obtain ra c3 w3 where au: "authenticate env (c1\<lparr>token := JNull\<rparr>) ?w2 = (ra, c3, w3)"
    by (cases "authenticate env (c1\<lparr>token := JNull\<rparr>) ?w2") auto
  from authenticate_shape(1) [OF au] s1 have w3: "w3 = ?w2\<lparr>calls := calls ?w2 @ [AuthCall]\<rparr>"
    by simp
  have sr2: "\<And>h. session_request req h w3 =
      (api_script w (Suc (n_api w)), w3\<lparr>calls := calls w3 @ [ApiCall req h]\<rparr>)"
    unfolding session_request_def w3 using a n
    by (simp add: n_api_def is_api_call_def)
  show ?thesis
    using assms sr
    by (simp add: make_request_def au sr2 split: http_result.splits sum.splits option.splits)
qed

lemma ensure_token_failed:
  assumes "ensure_token env c w = (Inl e0, c1, w1)" and "session c"
  shows "w1 = w\<lparr>calls := calls w @ [AuthCall]\<rparr>"
    and "auth_script w (n_auth w) = ClientError e \<Longrightarrow>
           e0 = WazuhApiError (''Connection error during authentication: '' @ e) (Some 503)"
proof -
  from assms(1) have au: "authenticate env c w = (Inl e0, c1, w1)"
    by (auto simp: ensure_token_def split: if_splits)
  from authenticate_shape(1) [OF au assms(2)] show "w1 = w\<lparr>calls := calls w @ [AuthCall]\<rparr>" .
  show "e0 = WazuhApiError (''Connection error during authentication: '' @ e) (Some 503)"
    if "auth_script w (n_auth w) = ClientError e"
    using authenticate_client_error [OF au assms(2) that] by simp
qed

lemma connection_error_503:
  assumes mr: "make_request env req c w = (res, c', w')"
    and ch: "calls w' \<noteq> calls w"
    and ans: "answer_of_last_call w' = Some (ClientError e)"
  shows "res = Inl (WazuhApiError (''Connection error: '' @ e) (Some 503)) \<or>
         res = Inl (WazuhApiError (''Connection error during authentication: '' @ e) (Some 503))"
proof -
  have sess: "session c"
    using mr ch by (cases "session c") (auto simp: make_request_no_session)
  obtain r0 c1 w1 where et: "ensure_token env c w = (r0, c1, w1)"
    by (cases "ensure_token env c w") auto
  note sh = ensure_token_shape [OF et sess]
  show ?thesis
  proof (cases r0)
    case (Inl e0)
    with et sess mr have eq: "res = Inl e0" "w' = w1"
      by (simp_all add: make_request_auth_failed)
    from ensure_token_failed(1) [OF et [unfolded Inl] sess]
    have w1: "w1 = w\<lparr>calls := calls w @ [AuthCall]\<rparr>" .
    with eq ans have "auth_script w (n_auth w) = ClientError e"
      by (simp add: answer_of_last_call_def n_auth_def)
    from ensure_token_failed(2) [OF et [unfolded Inl] sess this] eq show ?thesis by simp
  next
    case (Inr t)
    let ?w2 = "w1\<lparr>calls := calls w1 @ [ApiCall req (bearer env (token c1))]\<rparr>"
    note fa = make_request_first_answer [OF sess et [unfolded Inr], of req]
    have a2: "answer_of_last_call ?w2 = Some (api_script w (n_api w))"
      using sh(3,5) by (simp add: answer_of_last_call_def n_api_def is_api_call_def)
    show ?thesis
    proof (cases "api_script w (n_api w)")
      case (ClientError e1)
      with fa mr a2 ans show ?thesis by simp
    next
      case (Response status body)
      obtain ra c3 w3 where au: "authenticate env (c1\<lparr>token := JNull\<rparr>) ?w2 = (ra, c3, w3)"
        by (cases "authenticate env (c1\<lparr>token := JNull\<rparr>) ?w2") auto
      from authenticate_shape(1) [OF au] sh(2)
      have w3: "w3 = ?w2\<lparr>calls := calls ?w2 @ [AuthCall]\<rparr>" by simp
      have a3: "answer_of_last_call w3 = Some (auth_script ?w2 (n_auth ?w2))"
        unfolding w3 by (simp add: answer_of_last_call_def n_auth_def)
      have a4: "\<And>h. answer_of_last_call (w3\<lparr>calls := calls w3 @ [ApiCall req h]\<rparr>) =
          Some (api_script w (Suc (n_api w)))"
        unfolding w3 using sh(3,5) by (simp add: answer_of_last_call_def n_api_def is_api_call_def)
      consider "status = 200" | "status = 401" | "status \<noteq> 200" "status \<noteq> 401" by blast
      then show ?thesis
      proof cases
        case 1
        with fa mr Response a2 ans show ?thesis by (auto split: option.splits)
      next
        case 3
        with fa mr Response a2 ans show ?thesis by auto
      next
        case 2
        show ?thesis
        proof (cases ra)
          case (Inl e1)
          with fa mr Response 2 au have eq: "res = Inl e1" "w' = w3" by simp_all
          with a3 ans have "auth_script ?w2 (n_auth ?w2) = ClientError e" by simp
          from authenticate_client_error [OF au [unfolded Inl] _ this] sh(2) eq
          show ?thesis by simp
        next
          case (Inr new)
          with fa mr Response 2 au a4 ans show ?thesis
            by (auto split: http_result.splits if_splits option.splits)
        qed
      qed
    qed
  qed
qed

lemma make_request_call_bounds:
  assumes mr: "make_request env req c w = (res, c', w')"
  shows "n_auth w' \<le> n_auth w + 2 \<and> n_api w' \<le> n_api w + 2"
proof (cases "session c")
  case False
  with mr show ?thesis by (simp add: make_request_no_session)
next
  case sess: True
  obtain r0 c1 w1 where et: "ensure_token env c w = (r0, c1, w1)"
    by (cases "ensure_token env c w") auto
  note sh = ensure_token_shape [OF et sess]
  show ?thesis
  proof (cases r0)
    case (Inl e0)
    with et sess mr have "w' = w1" by (simp add: make_request_auth_failed)
    with sh show ?thesis by simp
  next
    case (Inr t)
    let ?w2 = "w1\<lparr>calls := calls w1 @ [ApiCall req (bearer env (token c1))]\<rparr>"
    note fa = make_request_first_answer [OF sess et [unfolded Inr], of req]
    obtain ra c3 w3 where au: "authenticate env (c1\<lparr>token := JNull\<rparr>) ?w2 = (ra, c3, w3)"
      by (cases "authenticate env (c1\<lparr>token := JNull\<rparr>) ?w2") auto
    from authenticate_shape(1) [OF au] sh(2)
    have w3: "w3 = ?w2\<lparr>calls := calls ?w2 @ [AuthCall]\<rparr>" by simp
    have c2: "n_auth ?w2 \<le> n_auth w + 1" "n_api ?w2 = n_api w + 1"
      using sh(5,6) by (simp_all add: n_auth_def n_api_def is_api_call_def)
    have c3: "n_auth w3 \<le> n_auth w + 2" "n_api w3 = n_api w + 1"
      unfolding w3 using sh(5,6) by (simp_all add: n_auth_def n_api_def is_api_call_def)
    have c4: "\<And>h. n_auth (w3\<lparr>calls := calls w3 @ [ApiCall req h]\<rparr>) \<le> n_auth w + 2"
      "\<And>h. n_api (w3\<lparr>calls := calls w3 @ [ApiCall req h]\<rparr>) = n_api w + 2"
      unfolding w3 using sh(5,6) by (simp_all add: n_auth_def n_api_def is_api_call_def)
    have "w' = ?w2 \<or> w' = w3 \<or> w' = w3\<lparr>calls := calls w3 @ [ApiCall req (bearer env (token c3))]\<rparr>"
      using fa mr au
      by (auto split: http_result.splits if_splits option.splits sum.splits)
    with c2 c3 c4 [of "bearer env (token c3)"] show ?thesis by auto
  qed
qed

lemma make_request_after_401:
  assumes sess: "session c" and et: "ensure_token env c w = (Inr t, c1, w1)"
    and first: "api_script w (n_api w) = Response 401 body"
    and mr: "make_request env req c w = (res, c', w')"
    and au: "authenticate env (c1\<lparr>token := JNull\<rparr>)
               (w1\<lparr>calls := calls w1 @ [ApiCall req (bearer env (token c1))]\<rparr>) = (ra, c2, w2)"
  shows "ra = Inl e \<Longrightarrow>
           res = Inl e \<and> token c' = JNull \<and>
           calls w' = calls w1 @ [ApiCall req (bearer env (token c1)), AuthCall]"
    and "ra = Inr new \<Longrightarrow>
           token c' = new \<and>
           calls w' = calls w1 @ [ApiCall req (bearer env (token c1)), AuthCall,
                                  ApiCall req (bearer env new)] \<and>
           (case api_script w (Suc (n_api w)) of
              ClientError e \<Rightarrow> res = Inl (WazuhApiError (''Connection error: '' @ e) (Some 503))
            | Response s b \<Rightarrow>
                if s = 200 then (case json_loads env b of Some j \<Rightarrow> res = Inr j
                                 | None \<Rightarrow> res = Inl JSONDecodeError)
                else res = Inl (WazuhApiError
                                  (''API request failed after re-auth: '' @ show_int s @ '' - '' @ b)
                                  (Some s)))"
proof -
  let ?w2 = "w1\<lparr>calls := calls w1 @ [ApiCall req (bearer env (token c1))]\<rparr>"
  note sh = ensure_token_shape [OF et sess]
  note fa = make_request_first_answer [OF sess et, of req]
  from authenticate_shape [OF au] sh(2)
  have w2: "w2 = ?w2\<lparr>calls := calls ?w2 @ [AuthCall]\<rparr>"
    and cl: "case ra of Inl e \<Rightarrow> c2 = c1\<lparr>token := JNull\<rparr> | Inr t \<Rightarrow> c2 = c1\<lparr>token := JNull, token := t\<rparr>"
    by simp_all
  show "res = Inl e \<and> token c' = JNull \<and>
           calls w' = calls w1 @ [ApiCall req (bearer env (token c1)), AuthCall]"
    if "ra = Inl e"
    using that fa mr first au w2 cl by simp
  show "token c' = new \<and>
           calls w' = calls w1 @ [ApiCall req (bearer env (token c1)), AuthCall,
                                  ApiCall req (bearer env new)] \<and>
           (case api_script w (Suc (n_api w)) of
              ClientError e \<Rightarrow> res = Inl (WazuhApiError (''Connection error: '' @ e) (Some 503))
            | Response s b \<Rightarrow>
                if s = 200 then (case json_loads env b of Some j \<Rightarrow> res = Inr j
                                 | None \<Rightarrow> res = Inl JSONDecodeError)
                else res = Inl (WazuhApiError
                                  (''API request failed after re-auth: '' @ show_int s @ '' - '' @ b)
                                  (Some s)))"
    if "ra = Inr new"
    using that fa mr first au w2 cl
    by (auto split: http_result.splits option.splits if_splits)
qed

lemma client_lookups:
  "json_loads (table_env client_table) body_token1 =
     Some (JObj [(''data'', JObj [(''token'', JStr ''tok1'')])])"
  "json_loads (table_env client_table) body_token2 =
     Some (JObj [(''data'', JObj [(''token'', JStr ''tok2'')])])"
  "json_loads (table_env client_table) body_agents =
     Some (JObj [(''data'', JObj [(''affected_items'', JArr [])])])"
  by (simp_all add: table_env_def client_table_def body_token1_def body_token2_def
      body_agents_def)

lemma fresh_client_first_token:
  assumes "auth_script w = token_script" and "calls w = []"
  shows "ensure_token (table_env client_table) fresh_client w =
     (Inr (JStr ''tok1''), fresh_client\<lparr>token := JStr ''tok1''\<rparr>, w\<lparr>calls := [AuthCall]\<rparr>)"
  using assms
  by (simp add: ensure_token_def fresh_client_def authenticate_def session_post_def n_auth_def
      token_script_def client_lookups dict_get_default_def dict_get_def)

lemma fresh_client_second_token:
  assumes "auth_script w = token_script"
  shows "authenticate (table_env client_table) (fresh_client\<lparr>token := JStr ''tok1'', token := JNull\<rparr>)
       (w\<lparr>calls := [AuthCall], calls := calls (w\<lparr>calls := [AuthCall]\<rparr>) @ [ApiCall get_agents h]\<rparr>) =
     (Inr (JStr ''tok2''), fresh_client\<lparr>token := JStr ''tok2''\<rparr>,
      w\<lparr>calls := [AuthCall, ApiCall get_agents h, AuthCall]\<rparr>)"
  using assms
  by (simp add: fresh_client_def authenticate_def session_post_def n_auth_def
      token_script_def client_lookups dict_get_default_def dict_get_def)

text \<open>
  Claim C2. One invocation of \<open>_make_request\<close> makes at most two authentication calls
  and at most two resource calls. If its first resource call is answered 401, the held
  token is discarded and exactly one more authentication follows. If that authentication
  fails, its error is the result, no token is held, and the request is not issued again.
  If it succeeds, the original request is issued exactly once more, with the new token in
  its \<open>Authorization\<close> header, and nothing follows it: an answer 200 with a JSON body
  is the result, any other status is raised as a \<open>WazuhApiError\<close> carrying that
  status, and a connection error as a \<open>WazuhApiError\<close> with the status 503.
\<close>

theorem make_request_retry_bound:
  assumes "make_request env req c w = (res, c', w')"
  shows "n_auth w' \<le> n_auth w + 2 \<and> n_api w' \<le> n_api w + 2 \<and>
    (\<forall>t c1 w1 body ra c2 w2.
       session c \<and> ensure_token env c w = (Inr t, c1, w1) \<and>
       api_script w (n_api w) = Response 401 body \<and>
       authenticate env (c1\<lparr>token := JNull\<rparr>)
         (w1\<lparr>calls := calls w1 @ [ApiCall req (bearer env (token c1))]\<rparr>) = (ra, c2, w2) \<longrightarrow>
       (case ra of
          Inl e \<Rightarrow>
            res = Inl e \<and> token c' = JNull \<and>
            calls w' = calls w1 @ [ApiCall req (bearer env (token c1)), AuthCall]
        | Inr new \<Rightarrow>
            token c' = new \<and>
            calls w' = calls w1 @ [ApiCall req (bearer env (token c1)), AuthCall,
                                   ApiCall req (bearer env new)] \<and>
            (case api_script w (Suc (n_api w)) of
               ClientError e \<Rightarrow> res = Inl (WazuhApiError (''Connection error: '' @ e) (Some 503))
             | Response s b \<Rightarrow>
                 if s = 200 then (case json_loads env b of Some j \<Rightarrow> res = Inr j
                                  | None \<Rightarrow> res = Inl JSONDecodeError)
                 else res = Inl (WazuhApiError
                                   (''API request failed after re-auth: '' @ show_int s @ '' - '' @ b)
                                   (Some s)))))"
proof -
  have "case ra of
          Inl e \<Rightarrow>
            res = Inl e \<and> token c' = JNull \<and>
            calls w' = calls w1 @ [ApiCall req (bearer env (token c1)), AuthCall]
        | Inr new \<Rightarrow>
            token c' = new \<and>
            calls w' = calls w1 @ [ApiCall req (bearer env (token c1)), AuthCall,
                                   ApiCall req (bearer env new)] \<and>
            (case api_script w (Suc (n_api w)) of
               ClientError e \<Rightarrow> res = Inl (WazuhApiError (''Connection error: '' @ e) (Some 503))
             | Response s b \<Rightarrow>
                 if s = 200 then (case json_loads env b of Some j \<Rightarrow> res = Inr j
                                  | None \<Rightarrow> res = Inl JSONDecodeError)
                 else res = Inl (WazuhApiError
                                   (''API request failed after re-auth: '' @ show_int s @ '' - '' @ b)
                                   (Some s)))"
    if "session c" "ensure_token env c w = (Inr t, c1, w1)"
      "api_script w (n_api w) = Response 401 body"
      "authenticate env (c1\<lparr>token := JNull\<rparr>)
         (w1\<lparr>calls := calls w1 @ [ApiCall req (bearer env (token c1))]\<rparr>) = (ra, c2, w2)"
    for t c1 w1 body ra c2 w2
    using make_request_after_401 [OF that(1,2,3) assms that(4)]
    by (cases ra) simp_all
  with make_request_call_bounds [OF assms] show ?thesis by blast
qed

theorem make_request_retry_bound_witness:
  "fst (make_request (table_env client_table) get_agents fresh_client expired_once) =
     Inr (JObj [(''data'', JObj [(''affected_items'', JArr [])])])
   \<and> calls (snd (snd (make_request (table_env client_table) get_agents fresh_client expired_once))) =
     [AuthCall, ApiCall get_agents ''Bearer tok1'', AuthCall, ApiCall get_agents ''Bearer tok2'']
   \<and> fst (make_request (table_env client_table) get_agents fresh_client expired_twice) =
     Inl (WazuhApiError ''API request failed after re-auth: 401 - token expired'' (Some 401))
   \<and> calls (snd (snd (make_request (table_env client_table) get_agents fresh_client expired_twice))) =
     [AuthCall, ApiCall get_agents ''Bearer tok1'', AuthCall, ApiCall get_agents ''Bearer tok2'']"
proof -
  let ?env = "table_env client_table"
  let ?m1 = "make_request ?env get_agents fresh_client expired_once"
  let ?m2 = "make_request ?env get_agents fresh_client expired_twice"
  have b: "bearer ?env (JStr ''tok1'') = ''Bearer tok1''" "bearer ?env (JStr ''tok2'') = ''Bearer tok2''"
    by (simp_all add: bearer_def py_str_def)
  have s401: "show_int 401 = ''401''"
    by (simp add: show_int_def dec_nat.simps digit_char_def)
  have e1: "ensure_token ?env fresh_client expired_once =
      (Inr (JStr ''tok1''), fresh_client\<lparr>token := JStr ''tok1''\<rparr>, expired_once\<lparr>calls := [AuthCall]\<rparr>)"
    by (rule fresh_client_first_token) (simp_all add: expired_once_def)
  have a1: "authenticate ?env (fresh_client\<lparr>token := JStr ''tok1'', token := JNull\<rparr>)
       (expired_once\<lparr>calls := [AuthCall],
          calls := calls (expired_once\<lparr>calls := [AuthCall]\<rparr>) @ [ApiCall get_agents ''Bearer tok1'']\<rparr>) =
     (Inr (JStr ''tok2''), fresh_client\<lparr>token := JStr ''tok2''\<rparr>,
      expired_once\<lparr>calls := [AuthCall, ApiCall get_agents ''Bearer tok1'', AuthCall]\<rparr>)"
    by (rule fresh_client_second_token) (simp add: expired_once_def)
  have e2: "ensure_token ?env fresh_client expired_twice =
      (Inr (JStr ''tok1''), fresh_client\<lparr>token := JStr ''tok1''\<rparr>, expired_twice\<lparr>calls := [AuthCall]\<rparr>)"
    by (rule fresh_client_first_token) (simp_all add: expired_twice_def)
  have a2: "authenticate ?env (fresh_client\<lparr>token := JStr ''tok1'', token := JNull\<rparr>)
       (expired_twice\<lparr>calls := [AuthCall],
          calls := calls (expired_twice\<lparr>calls := [AuthCall]\<rparr>) @ [ApiCall get_agents ''Bearer tok1'']\<rparr>) =
     (Inr (JStr ''tok2''), fresh_client\<lparr>token := JStr ''tok2''\<rparr>,
      expired_twice\<lparr>calls := [AuthCall, ApiCall get_agents ''Bearer tok1'', AuthCall]\<rparr>)"
    by (rule fresh_client_second_token) (simp add: expired_twice_def)
  have m1: "?m1 = (fst ?m1, fst (snd ?m1), snd (snd ?m1))" by simp
  have m2: "?m2 = (fst ?m2, fst (snd ?m2), snd (snd ?m2))" by simp
  have s: "session fresh_client" by (simp add: fresh_client_def)
  have f1: "api_script expired_once (n_api expired_once) = Response 401 ''token expired''"
    "api_script expired_once (Suc (n_api expired_once)) = Response 200 body_agents"
    by (simp_all add: expired_once_def n_api_def)
  have f2: "api_script expired_twice (n_api expired_twice) = Response 401 ''token expired''"
    "api_script expired_twice (Suc (n_api expired_twice)) = Response 401 ''token expired''"
    by (simp_all add: expired_twice_def)
  from make_request_retry_bound [OF m1]
  have "session fresh_client \<and> ensure_token ?env fresh_client expired_once =
          (Inr (JStr ''tok1''), fresh_client\<lparr>token := JStr ''tok1''\<rparr>, expired_once\<lparr>calls := [AuthCall]\<rparr>) \<and>
       api_script expired_once (n_api expired_once) = Response 401 ''token expired'' \<and>
       authenticate ?env (fresh_client\<lparr>token := JStr ''tok1'', token := JNull\<rparr>)
         (expired_once\<lparr>calls := [AuthCall],
            calls := calls (expired_once\<lparr>calls := [AuthCall]\<rparr>) @
              [ApiCall get_agents (bearer ?env (token (fresh_client\<lparr>token := JStr ''tok1''\<rparr>)))]\<rparr>) =
         (Inr (JStr ''tok2''), fresh_client\<lparr>token := JStr ''tok2''\<rparr>,
          expired_once\<lparr>calls := [AuthCall, ApiCall get_agents ''Bearer tok1'', AuthCall]\<rparr>) \<longrightarrow>
       (case (Inr (JStr ''tok2'') :: client_exn + json) of
          Inl e \<Rightarrow>
            fst ?m1 = Inl e \<and> token (fst (snd ?m1)) = JNull \<and>
            calls (snd (snd ?m1)) = calls (expired_once\<lparr>calls := [AuthCall]\<rparr>) @
              [ApiCall get_agents (bearer ?env (token (fresh_client\<lparr>token := JStr ''tok1''\<rparr>))), AuthCall]
        | Inr new \<Rightarrow>
            token (fst (snd ?m1)) = new \<and>
            calls (snd (snd ?m1)) = calls (expired_once\<lparr>calls := [AuthCall]\<rparr>) @
              [ApiCall get_agents (bearer ?env (token (fresh_client\<lparr>token := JStr ''tok1''\<rparr>))), AuthCall,
               ApiCall get_agents (bearer ?env new)] \<and>
            (case api_script expired_once (Suc (n_api expired_once)) of
               ClientError e \<Rightarrow> fst ?m1 = Inl (WazuhApiError (''Connection error: '' @ e) (Some 503))
             | Response s b \<Rightarrow>
                 if s = 200 then (case json_loads ?env b of Some j \<Rightarrow> fst ?m1 = Inr j
                                  | None \<Rightarrow> fst ?m1 = Inl JSONDecodeError)
                 else fst ?m1 = Inl (WazuhApiError
                                   (''API request failed after re-auth: '' @ show_int s @ '' - '' @ b)
                                   (Some s))))"
    by blast
  with s e1 f1 a1 b
  have r1: "fst ?m1 = Inr (JObj [(''data'', JObj [(''affected_items'', JArr [])])])"
    "calls (snd (snd ?m1)) =
       [AuthCall, ApiCall get_agents ''Bearer tok1'', AuthCall, ApiCall get_agents ''Bearer tok2'']"
    by (simp_all add: client_lookups)
  from make_request_retry_bound [OF m2]
  have "session fresh_client \<and> ensure_token ?env fresh_client expired_twice =
          (Inr (JStr ''tok1''), fresh_client\<lparr>token := JStr ''tok1''\<rparr>, expired_twice\<lparr>calls := [AuthCall]\<rparr>) \<and>
       api_script expired_twice (n_api expired_twice) = Response 401 ''token expired'' \<and>
       authenticate ?env (fresh_client\<lparr>token := JStr ''tok1'', token := JNull\<rparr>)
         (expired_twice\<lparr>calls := [AuthCall],
            calls := calls (expired_twice\<lparr>calls := [AuthCall]\<rparr>) @
              [ApiCall get_agents (bearer ?env (token (fresh_client\<lparr>token := JStr ''tok1''\<rparr>)))]\<rparr>) =
         (Inr (JStr ''tok2''), fresh_client\<lparr>token := JStr ''tok2''\<rparr>,
          expired_twice\<lparr>calls := [AuthCall, ApiCall get_agents ''Bearer tok1'', AuthCall]\<rparr>) \<longrightarrow>
       (case (Inr (JStr ''tok2'') :: client_exn + json) of
          Inl e \<Rightarrow>
            fst ?m2 = Inl e \<and> token (fst (snd ?m2)) = JNull \<and>
            calls (snd (snd ?m2)) = calls (expired_twice\<lparr>calls := [AuthCall]\<rparr>) @
              [ApiCall get_agents (bearer ?env (token (fresh_client\<lparr>token := JStr ''tok1''\<rparr>))), AuthCall]
        | Inr new \<Rightarrow>
            token (fst (snd ?m2)) = new \<and>
            calls (snd (snd ?m2)) = calls (expired_twice\<lparr>calls := [AuthCall]\<rparr>) @
              [ApiCall get_agents (bearer ?env (token (fresh_client\<lparr>token := JStr ''tok1''\<rparr>))), AuthCall,
               ApiCall get_agents (bearer ?env new)] \<and>
            (case api_script expired_twice (Suc (n_api expired_twice)) of
               ClientError e \<Rightarrow> fst ?m2 = Inl (WazuhApiError (''Connection error: '' @ e) (Some 503))
             | Response s b \<Rightarrow>
                 if s = 200 then (case json_loads ?env b of Some j \<Rightarrow> fst ?m2 = Inr j
                                  | None \<Rightarrow> fst ?m2 = Inl JSONDecodeError)
                 else fst ?m2 = Inl (WazuhApiError
                                   (''API request failed after re-auth: '' @ show_int s @ '' - '' @ b)
                                   (Some s))))"
    by blast
  with s e2 f2 a2 b
  have r2: "fst ?m2 =
     Inl (WazuhApiError ''API request failed after re-auth: 401 - token expired'' (Some 401))"
    "calls (snd (snd ?m2)) =
       [AuthCall, ApiCall get_agents ''Bearer tok1'', AuthCall, ApiCall get_agents ''Bearer tok2'']"
    by (simp_all add: s401)
  from r1 r2 show ?thesis by simp
qed

text \<open>
  Claim C8. When the first resource call of a request is answered with a status that is
  not 2xx and not 401, the request raises a \<open>WazuhApiError\<close> that carries this status
  and whose message holds the status and the body text. When the call made last in an
  invocation ended in a connection error, the invocation raises a \<open>WazuhApiError\<close> with
  the status 503.
\<close>

theorem make_request_errors_surface:
  "(session c \<and> ensure_token env c w = (Inr t, c1, w1) \<and>
    api_script w (n_api w) = Response status body \<and>
    \<not> (200 \<le> status \<and> status \<le> 299) \<and> status \<noteq> 401 \<longrightarrow>
      fst (make_request env req c w) =
        Inl (WazuhApiError (''API request failed: '' @ show_int status @ '' - '' @ body)
               (Some status)))
   \<and> (make_request env req c w = (res, c', w') \<and> calls w' \<noteq> calls w \<and>
      answer_of_last_call w' = Some (ClientError e) \<longrightarrow>
        res = Inl (WazuhApiError (''Connection error: '' @ e) (Some 503)) \<or>
        res = Inl (WazuhApiError (''Connection error during authentication: '' @ e) (Some 503)))"
proof -
  have "fst (make_request env req c w) =
        Inl (WazuhApiError (''API request failed: '' @ show_int status @ '' - '' @ body)
               (Some status))"
    if "session c" "ensure_token env c w = (Inr t, c1, w1)"
      "api_script w (n_api w) = Response status body"
      "\<not> (200 \<le> status \<and> status \<le> 299)" "status \<noteq> 401"
    using that make_request_first_answer [OF that(1,2), of req] by auto
  then show ?thesis using connection_error_503 [of env req c w res c' w' e] by blast
qed

theorem make_request_errors_surface_witness:
  "fst (make_request (table_env client_table) get_agents fresh_client failing_api) =
     Inl (WazuhApiError ''API request failed: 500 - Internal Server Error'' (Some 500))
   \<and> (fst (make_request (table_env client_table) get_agents
              \<lparr>session = True, token = JStr ''tok0''\<rparr> unreachable_api) =
         Inl (WazuhApiError ''Connection error: Cannot connect to host'' (Some 503))
       \<or> fst (make_request (table_env client_table) get_agents
              \<lparr>session = True, token = JStr ''tok0''\<rparr> unreachable_api) =
         Inl (WazuhApiError ''Connection error during authentication: Cannot connect to host''
                (Some 503)))"
proof -
  let ?env = "table_env client_table"
  let ?held = "\<lparr>session = True, token = JStr ''tok0''\<rparr>"
  let ?m = "make_request ?env get_agents ?held unreachable_api"
  have s500: "show_int 500 = ''500''"
    by (simp add: show_int_def dec_nat.simps digit_char_def)
  have e1: "ensure_token ?env fresh_client failing_api =
      (Inr (JStr ''tok1''), fresh_client\<lparr>token := JStr ''tok1''\<rparr>, failing_api\<lparr>calls := [AuthCall]\<rparr>)"
    by (rule fresh_client_first_token) (simp_all add: failing_api_def)
  have f1: "api_script failing_api (n_api failing_api) = Response 500 ''Internal Server Error''"
    by (simp add: failing_api_def)
  have r1: "fst (make_request ?env get_agents fresh_client failing_api) =
     Inl (WazuhApiError ''API request failed: 500 - Internal Server Error'' (Some 500))"
    using make_request_errors_surface [of fresh_client ?env failing_api "JStr ''tok1''"
        "fresh_client\<lparr>token := JStr ''tok1''\<rparr>" "failing_api\<lparr>calls := [AuthCall]\<rparr>"
        500 "''Internal Server Error''" get_agents] e1 f1
    by (simp add: fresh_client_def s500)
  have m: "?m = (Inl (WazuhApiError ''Connection error: Cannot connect to host'' (Some 503)), ?held,
      unreachable_api\<lparr>calls := [ApiCall get_agents ''Bearer tok0'']\<rparr>)"
    by (simp add: make_request_def ensure_token_def session_request_def unreachable_api_def
        bearer_def py_str_def n_api_def)
  have a: "answer_of_last_call (unreachable_api\<lparr>calls := [ApiCall get_agents ''Bearer tok0'']\<rparr>) =
      Some (ClientError ''Cannot connect to host'')"
    by (simp add: answer_of_last_call_def unreachable_api_def)
  have c: "calls (unreachable_api\<lparr>calls := [ApiCall get_agents ''Bearer tok0'']\<rparr>) \<noteq>
      calls unreachable_api"
    by (simp add: unreachable_api_def)
  from make_request_errors_surface [of ?held ?env unreachable_api _ _ _ _ _ get_agents
      "Inl (WazuhApiError ''Connection error: Cannot connect to host'' (Some 503))" ?held
      "unreachable_api\<lparr>calls := [ApiCall get_agents ''Bearer tok0'']\<rparr>"
      "''Cannot connect to host''"] m a c
  have "fst ?m = Inl (WazuhApiError ''Connection error: Cannot connect to host'' (Some 503))
       \<or> fst ?m = Inl (WazuhApiError
            ''Connection error during authentication: Cannot connect to host'' (Some 503))"
    by simp
  with r1 show ?thesis by simp
qed

end
